theory Spec2Isabelle
  imports Complex_Main
begin

section \<open>Data model (models.py)\<close>

text \<open>
  The tables of \<^verbatim>\<open>models.py\<close> that the inventory ledger and the purchase-order
  workflow use. A table is the list of its rows in primary-key order; a column of type
  Integer is an \<open>int\<close> (Python's integers are unbounded), a String column a \<open>string\<close>,
  a nullable column an \<open>option\<close>. A DateTime is the reading of the clock in seconds.

  A price or an amount is a number with a fraction. The number of a JSON body is the
  rational that its digits write, and sums and products of such numbers are exact here
  (the program has Python's floats for the numbers that are written with a fraction).
  A DECIMAL(10, 2) column keeps what is written to it rounded to the hundredth.
\<close>

type_synonym datetime = int

text \<open>The value that a DECIMAL(10, 2) column keeps: the nearest hundredth, a tie away from 0.\<close>

definition decimal_10_2 :: "rat \<Rightarrow> rat" where
  "decimal_10_2 x =
     (if 0 \<le> x then of_int \<lfloor>x * 100 + 1 / 2\<rfloor> / 100
      else - (of_int \<lfloor>- x * 100 + 1 / 2\<rfloor> / 100))"

record product =
  prod_id :: int
  prod_name :: string
  prod_sku :: string
  prod_barcode :: "string option"

record supplier =
  sup_id :: int
  sup_name :: string

record inventory_row =
  inv_id :: int
  inv_product_id :: int
  inv_warehouse_id :: int
  inv_quantity :: int
  inv_reorder_level :: int
  inv_max_stock_level :: int
  inv_last_updated :: datetime

record stock_movement =
  sm_id :: int
  sm_product_id :: int
  sm_warehouse_id :: int
  sm_movement_type :: string
  sm_quantity :: int
  sm_reference_type :: "string option"
  sm_reference_id :: "int option"
  sm_notes :: "string option"
  sm_created_at :: datetime

record purchase_order =
  po_id :: int
  po_order_number :: string
  po_supplier_id :: int
  po_status :: string
  po_order_date :: datetime
  po_expected_delivery :: "datetime option"
  po_actual_delivery :: "datetime option"
  po_total_amount :: rat
  po_notes :: "string option"
  po_created_at :: datetime
  po_updated_at :: datetime

record purchase_order_item =
  poi_id :: int
  poi_purchase_order_id :: int
  poi_product_id :: int
  poi_quantity :: int
  poi_unit_price :: rat
  poi_received_quantity :: int

record db =
  products :: "product list"
  suppliers :: "supplier list"
  inventory :: "inventory_row list"
  stock_movements :: "stock_movement list"
  purchase_orders :: "purchase_order list"
  purchase_order_items :: "purchase_order_item list"

section \<open>Responses and the request's database session\<close>

text \<open>
  A handler answers with \<open>jsonify(...)\<close> and a status code. An error response is
  \<open>Inl (code, message)\<close>, a success \<open>Inr payload\<close>.

  Every handler works on the session of its request. What it adds or changes is in the
  session only; \<open>db.session.commit()\<close> writes the session to the database, and a
  handler that returns without committing (or calls \<open>db.session.rollback()\<close>) leaves
  the database as it was, because the session is dropped when the request ends. On
  commit, a row of the session that is not a row of the database as it is (a new row or
  a changed one) is written, and it gets the time of the write in the column that the
  model declares with \<open>default=datetime.utcnow, onupdate=datetime.utcnow\<close>.
  A request reads the clock once: \<open>now\<close> is the time of the request.

  In a JSON body a key is absent (\<open>None\<close>) or has a value of the type that the handler
  computes with: an integer for an id or a quantity, a number for a price, a string for
  a type or a note. The foreign keys and the range of the columns are the database's to
  check; the ids of the requests are ids of rows that exist, where the handler does not
  look them up itself. The text of an exception that a handler answers with status 500 is
  shortened to its kind where the database driver writes it.
\<close>

type_synonym 'a response = "(nat \<times> string) + 'a"

datatype 'a outcome =
    Committed "'a response" db
  | Uncommitted "'a response" db

definition stamp_inventory :: "datetime \<Rightarrow> inventory_row list \<Rightarrow> inventory_row \<Rightarrow> inventory_row" where
  "stamp_inventory now old r = (if r \<in> set old then r else r\<lparr>inv_last_updated := now\<rparr>)"

definition stamp_purchase_order :: "datetime \<Rightarrow> purchase_order list \<Rightarrow> purchase_order \<Rightarrow> purchase_order" where
  "stamp_purchase_order now old r = (if r \<in> set old then r else r\<lparr>po_updated_at := now\<rparr>)"

definition flush :: "datetime \<Rightarrow> db \<Rightarrow> db \<Rightarrow> db" where
  "flush now db0 s =
     s\<lparr>inventory := map (stamp_inventory now (inventory db0)) (inventory s),
       purchase_orders := map (stamp_purchase_order now (purchase_orders db0)) (purchase_orders s)\<rparr>"

fun end_request :: "datetime \<Rightarrow> db \<Rightarrow> 'a outcome \<Rightarrow> 'a response \<times> db" where
  "end_request now db0 (Committed r s) = (r, flush now db0 s)"
| "end_request now db0 (Uncommitted r s) = (r, db0)"

text \<open>The next value of an auto-increment primary key.\<close>

definition next_id :: "int list \<Rightarrow> int" where
  "next_id ids = Max (insert 0 (set ids)) + 1"

text \<open>\<open>Inventory.query.filter_by(product_id=p, warehouse_id=w).first()\<close>\<close>

definition find_inventory :: "int \<Rightarrow> int \<Rightarrow> db \<Rightarrow> inventory_row option" where
  "find_inventory p w s =
     find (\<lambda>r. inv_product_id r = p \<and> inv_warehouse_id r = w) (inventory s)"

text \<open>\<open>Inventory.query.get(i)\<close>: the row of a primary key.\<close>

definition get_inventory_row :: "int \<Rightarrow> db \<Rightarrow> inventory_row option" where
  "get_inventory_row i s = find (\<lambda>r. inv_id r = i) (inventory s)"

text \<open>
  An ORM object is the row of its primary key in the session: an assignment to an
  attribute of the object changes that row, whichever variable of the handler holds it.
\<close>

definition inv_update :: "int \<Rightarrow> (inventory_row \<Rightarrow> inventory_row) \<Rightarrow> db \<Rightarrow> db" where
  "inv_update i f s =
     s\<lparr>inventory := map (\<lambda>r. if inv_id r = i then f r else r) (inventory s)\<rparr>"

definition session_add_inventory :: "inventory_row \<Rightarrow> db \<Rightarrow> db" where
  "session_add_inventory r s = s\<lparr>inventory := inventory s @ [r]\<rparr>"

definition session_add_movement :: "stock_movement \<Rightarrow> db \<Rightarrow> db" where
  "session_add_movement m s = s\<lparr>stock_movements := stock_movements s @ [m]\<rparr>"

text \<open>\<open>Inventory(product_id=p, warehouse_id=w, quantity=0, reorder_level=rl, max_stock_level=ml)\<close>\<close>

definition new_inventory :: "datetime \<Rightarrow> db \<Rightarrow> int \<Rightarrow> int \<Rightarrow> int \<Rightarrow> int \<Rightarrow> inventory_row" where
  "new_inventory now s p w rl ml =
     \<lparr>inv_id = next_id (map inv_id (inventory s)), inv_product_id = p, inv_warehouse_id = w,
      inv_quantity = 0, inv_reorder_level = rl, inv_max_stock_level = ml,
      inv_last_updated = now\<rparr>"

definition new_movement ::
  "datetime \<Rightarrow> db \<Rightarrow> int \<Rightarrow> int \<Rightarrow> string \<Rightarrow> int \<Rightarrow> string option \<Rightarrow> int option \<Rightarrow> string option
     \<Rightarrow> stock_movement" where
  "new_movement now s p w mt q rt ri n =
     \<lparr>sm_id = next_id (map sm_id (stock_movements s)), sm_product_id = p, sm_warehouse_id = w,
      sm_movement_type = mt, sm_quantity = q, sm_reference_type = rt, sm_reference_id = ri,
      sm_notes = n, sm_created_at = now\<rparr>"

section \<open>Stock ledger (routes/inventory.py)\<close>

subsection \<open>adjust_inventory\<close>

text \<open>
  The JSON body of \<open>POST /inventory/adjust\<close>: a key that is absent is \<open>None\<close>.
\<close>

record adjust_data =
  ad_product_id :: "int option"
  ad_warehouse_id :: "int option"
  ad_quantity_change :: "int option"
  ad_movement_type :: "string option"
  ad_reorder_level :: "int option"
  ad_max_stock_level :: "int option"
  ad_reference_type :: "string option"
  ad_reference_id :: "int option"
  ad_notes :: "string option"

definition adjust_inventory ::
  "datetime \<Rightarrow> adjust_data \<Rightarrow> db \<Rightarrow> (inventory_row \<times> stock_movement) response \<times> db" where
  "adjust_inventory now data db0 =
     (if ad_product_id data = None \<or> ad_warehouse_id data = None
         \<or> ad_quantity_change data = None \<or> ad_movement_type data = None
      then end_request now db0 (Uncommitted
             (Inl (400, ''Product ID, Warehouse ID, quantity change, and movement type are required''))
             db0)
      else
        let p = the (ad_product_id data);
            w = the (ad_warehouse_id data);
            quantity_change = the (ad_quantity_change data);
            created = new_inventory now db0 p w
                        (case ad_reorder_level data of None \<Rightarrow> 10 | Some v \<Rightarrow> v)
                        (case ad_max_stock_level data of None \<Rightarrow> 1000 | Some v \<Rightarrow> v);
            inventory_item = (case find_inventory p w db0 of Some r \<Rightarrow> r | None \<Rightarrow> created);
            s1 = (case find_inventory p w db0 of Some r \<Rightarrow> db0
                  | None \<Rightarrow> session_add_inventory created db0);
            new_quantity = inv_quantity inventory_item + quantity_change
        in if new_quantity < 0
           then end_request now db0 (Uncommitted
                  (Inl (400, ''Insufficient stock for this operation'')) s1)
           else
             let s2 = inv_update (inv_id inventory_item)
                        (\<lambda>r. r\<lparr>inv_quantity := new_quantity, inv_last_updated := now\<rparr>) s1;
                 stock_movement = new_movement now s2 p w (the (ad_movement_type data))
                                    \<bar>quantity_change\<bar> (ad_reference_type data)
                                    (ad_reference_id data) (ad_notes data);
                 s3 = session_add_movement stock_movement s2
             in end_request now db0 (Committed
                  (Inr (inventory_item\<lparr>inv_quantity := new_quantity, inv_last_updated := now\<rparr>,
                        stock_movement)) s3))"

subsection \<open>transfer_inventory\<close>

text \<open>Python's \<open>str\<close> of an integer, for the f-strings of the notes.\<close>

function str_nat :: "nat \<Rightarrow> string" where
  "str_nat n =
     (if n < 10 then [''0123456789'' ! n]
      else str_nat (n div 10) @ [''0123456789'' ! (n mod 10)])"
  by pat_completeness auto
termination
  by (relation "measure id") auto

definition str_int :: "int \<Rightarrow> string" where
  "str_int i = (if i < 0 then CHR ''-'' # str_nat (nat (- i)) else str_nat (nat i))"

record transfer_data =
  td_product_id :: "int option"
  td_from_warehouse_id :: "int option"
  td_to_warehouse_id :: "int option"
  td_quantity :: "int option"

text \<open>
  \<open>source_inventory\<close> and \<open>dest_inventory\<close> are ORM objects: when both queries return
  the same row, they are one object, and the two assignments act on it in turn.
  The payload is the two rows as they are read back after the commit.
\<close>

definition transfer_inventory ::
  "datetime \<Rightarrow> transfer_data \<Rightarrow> db
     \<Rightarrow> (inventory_row option \<times> inventory_row option) response \<times> db" where
  "transfer_inventory now data db0 =
     (if td_product_id data = None \<or> td_from_warehouse_id data = None
         \<or> td_to_warehouse_id data = None \<or> td_quantity data = None
      then end_request now db0 (Uncommitted
             (Inl (400, ''Product ID, source warehouse, destination warehouse, and quantity are required''))
             db0)
      else
        let p = the (td_product_id data);
            from_w = the (td_from_warehouse_id data);
            to_w = the (td_to_warehouse_id data);
            quantity = the (td_quantity data)
        in case find_inventory p from_w db0 of
             None \<Rightarrow> end_request now db0 (Uncommitted
                       (Inl (400, ''Insufficient stock in source warehouse'')) db0)
           | Some source_inventory \<Rightarrow>
               if inv_quantity source_inventory < quantity
               then end_request now db0 (Uncommitted
                      (Inl (400, ''Insufficient stock in source warehouse'')) db0)
               else
                 let created = new_inventory now db0 p to_w 10 1000;
                     dest_id = (case find_inventory p to_w db0 of
                                  Some r \<Rightarrow> inv_id r | None \<Rightarrow> inv_id created);
                     s1 = (case find_inventory p to_w db0 of
                             Some r \<Rightarrow> db0 | None \<Rightarrow> session_add_inventory created db0);
                     s2 = inv_update (inv_id source_inventory)
                            (\<lambda>r. r\<lparr>inv_quantity := inv_quantity r - quantity\<rparr>) s1;
                     s3 = inv_update dest_id
                            (\<lambda>r. r\<lparr>inv_quantity := inv_quantity r + quantity\<rparr>) s2;
                     s4 = session_add_movement
                            (new_movement now s3 p from_w ''out'' quantity (Some ''transfer'') None
                               (Some (''Transfer to warehouse '' @ str_int to_w))) s3;
                     s5 = session_add_movement
                            (new_movement now s4 p to_w ''in'' quantity (Some ''transfer'') None
                               (Some (''Transfer from warehouse '' @ str_int from_w))) s4
                 in end_request now db0 (Committed
                      (Inr (get_inventory_row (inv_id source_inventory) (flush now db0 s5),
                            get_inventory_row dest_id (flush now db0 s5))) s5))"

subsection \<open>update_inventory_item\<close>

text \<open>
  \<open>get_or_404\<close> raises werkzeug's \<open>NotFound\<close> inside the handler's \<open>try\<close>; the
  \<open>except Exception\<close> clause catches it, rolls back and answers 500 with its text.
\<close>

definition not_found_text :: string where
  "not_found_text = ''404 Not Found: The requested URL was not found on the server. If you entered the URL manually please check your spelling and try again.''"

text \<open>
  The JSON body of \<open>PUT /inventory/<id>\<close>: the three fields the handler copies, and
  whether the body has any other key (a body with no key at all is refused).
\<close>

record update_data =
  ud_quantity :: "int option"
  ud_reorder_level :: "int option"
  ud_max_stock_level :: "int option"
  ud_other_keys :: bool

definition update_inventory_item ::
  "datetime \<Rightarrow> int \<Rightarrow> update_data \<Rightarrow> db \<Rightarrow> inventory_row option response \<times> db" where
  "update_inventory_item now inventory_id data db0 =
     (case get_inventory_row inventory_id db0 of
        None \<Rightarrow> end_request now db0 (Uncommitted (Inl (500, not_found_text)) db0)
      | Some inventory_item \<Rightarrow>
          if ud_quantity data = None \<and> ud_reorder_level data = None
             \<and> ud_max_stock_level data = None \<and> \<not> ud_other_keys data
          then end_request now db0 (Uncommitted (Inl (400, ''No data provided'')) db0)
          else
            let s1 = (case ud_quantity data of None \<Rightarrow> db0
                      | Some v \<Rightarrow> inv_update inventory_id (\<lambda>r. r\<lparr>inv_quantity := v\<rparr>) db0);
                s2 = (case ud_reorder_level data of None \<Rightarrow> s1
                      | Some v \<Rightarrow> inv_update inventory_id (\<lambda>r. r\<lparr>inv_reorder_level := v\<rparr>) s1);
                s3 = (case ud_max_stock_level data of None \<Rightarrow> s2
                      | Some v \<Rightarrow> inv_update inventory_id (\<lambda>r. r\<lparr>inv_max_stock_level := v\<rparr>) s2)
            in end_request now db0 (Committed
                 (Inr (get_inventory_row inventory_id (flush now db0 s3))) s3))"

section \<open>Stock count by barcode (routes/barcode.py)\<close>

record count_data =
  cd_barcode :: "string option"
  cd_warehouse_id :: "int option"
  cd_counted_quantity :: "int option"

text \<open>
  The payload is the inventory row, \<open>old_quantity\<close>, \<open>counted_quantity\<close> and
  \<open>adjustment\<close>. The check of the caller's token (\<open>jwt_required\<close>) is before the
  handler and is not part of it.
\<close>

definition scan_count ::
  "datetime \<Rightarrow> count_data \<Rightarrow> db \<Rightarrow> (inventory_row \<times> int \<times> int \<times> int) response \<times> db" where
  "scan_count now data db0 =
     (if cd_barcode data = None \<or> cd_warehouse_id data = None \<or> cd_counted_quantity data = None
      then end_request now db0 (Uncommitted
             (Inl (400, ''Barcode, warehouse_id, and counted_quantity are required'')) db0)
      else
        let barcode = the (cd_barcode data);
            warehouse_id = the (cd_warehouse_id data);
            counted_quantity = the (cd_counted_quantity data)
        in if counted_quantity < 0
           then end_request now db0 (Uncommitted
                  (Inl (400, ''Counted quantity cannot be negative'')) db0)
           else
             case find (\<lambda>pr. prod_barcode pr = Some barcode) (products db0) of
               None \<Rightarrow> end_request now db0 (Uncommitted (Inl (404, ''Product not found'')) db0)
             | Some product \<Rightarrow>
                 let created = new_inventory now db0 (prod_id product) warehouse_id 10 1000;
                     inventory_item = (case find_inventory (prod_id product) warehouse_id db0 of
                                         Some r \<Rightarrow> r | None \<Rightarrow> created);
                     s1 = (case find_inventory (prod_id product) warehouse_id db0 of
                             Some r \<Rightarrow> db0 | None \<Rightarrow> session_add_inventory created db0);
                     old_quantity = inv_quantity inventory_item;
                     adjustment = counted_quantity - old_quantity;
                     s2 = inv_update (inv_id inventory_item)
                            (\<lambda>r. r\<lparr>inv_quantity := counted_quantity, inv_last_updated := now\<rparr>) s1;
                     s3 = (if adjustment \<noteq> 0
                           then session_add_movement
                                  (new_movement now s2 (prod_id product) warehouse_id ''adjustment''
                                     \<bar>adjustment\<bar> (Some ''barcode_count'') None
                                     (Some (''Stock count adjustment: '' @ barcode @ ''. Old: ''
                                            @ str_int old_quantity @ '', New: ''
                                            @ str_int counted_quantity))) s2
                           else s2)
                 in end_request now db0 (Committed
                      (Inr (inventory_item\<lparr>inv_quantity := counted_quantity, inv_last_updated := now\<rparr>,
                            old_quantity, counted_quantity, adjustment)) s3))"

section \<open>Purchase orders (routes/purchase_orders.py)\<close>

text \<open>\<open>PurchaseOrder.query.get(i)\<close> and \<open>PurchaseOrderItem.query.get(i)\<close>\<close>

definition get_purchase_order :: "int \<Rightarrow> db \<Rightarrow> purchase_order option" where
  "get_purchase_order i s = find (\<lambda>po. po_id po = i) (purchase_orders s)"

definition get_po_item :: "int \<Rightarrow> db \<Rightarrow> purchase_order_item option" where
  "get_po_item i s = find (\<lambda>it. poi_id it = i) (purchase_order_items s)"

definition po_update :: "int \<Rightarrow> (purchase_order \<Rightarrow> purchase_order) \<Rightarrow> db \<Rightarrow> db" where
  "po_update i f s =
     s\<lparr>purchase_orders := map (\<lambda>po. if po_id po = i then f po else po) (purchase_orders s)\<rparr>"

definition poi_update :: "int \<Rightarrow> (purchase_order_item \<Rightarrow> purchase_order_item) \<Rightarrow> db \<Rightarrow> db" where
  "poi_update i f s =
     s\<lparr>purchase_order_items :=
         map (\<lambda>it. if poi_id it = i then f it else it) (purchase_order_items s)\<rparr>"

text \<open>\<open>purchase_order.items\<close>: the items whose foreign key is the order.\<close>

definition po_items :: "int \<Rightarrow> db \<Rightarrow> purchase_order_item list" where
  "po_items i s = filter (\<lambda>it. poi_purchase_order_id it = i) (purchase_order_items s)"

subsection \<open>create_purchase_order\<close>

record po_item_data =
  pid_product_id :: "int option"
  pid_quantity :: "int option"
  pid_unit_price :: "rat option"

text \<open>
  The \<open>expected_delivery\<close> of the body: absent (or empty), a string that
  \<open>datetime.fromisoformat\<close> refuses, or a string that it reads as a time.
\<close>

datatype iso_date = NoDate | BadDate string | IsoDate datetime

record create_po_data =
  cpd_supplier_id :: "int option"
  cpd_items :: "po_item_data list option"
  cpd_expected_delivery :: iso_date
  cpd_notes :: "string option"

text \<open>
  The loop over \<open>data['items']\<close>: the session and \<open>total_amount\<close> so far, or the
  error response of the first item that is refused. \<open>not item_data.get(k)\<close> holds when
  the key is absent and when its value is 0. The unit price of an item and the total
  amount of the order are written to DECIMAL(10, 2) columns; the total is the sum over
  the unit prices as the body has them.
\<close>

fun create_items ::
  "int \<Rightarrow> po_item_data list \<Rightarrow> db \<Rightarrow> rat \<Rightarrow> (nat \<times> string) + (db \<times> rat)" where
  "create_items po [] s total_amount = Inr (s, total_amount)"
| "create_items po (item_data # rest) s total_amount =
     (if pid_product_id item_data = None \<or> pid_product_id item_data = Some 0
         \<or> pid_quantity item_data = None \<or> pid_quantity item_data = Some 0
         \<or> pid_unit_price item_data = None \<or> pid_unit_price item_data = Some 0
      then Inl (400, ''Product ID, quantity, and unit price are required for all items'')
      else
        case find (\<lambda>pr. prod_id pr = the (pid_product_id item_data)) (products s) of
          None \<Rightarrow> Inl (404, ''Product with ID '' @ str_int (the (pid_product_id item_data))
                              @ '' not found'')
        | Some product \<Rightarrow>
            create_items po rest
              (s\<lparr>purchase_order_items := purchase_order_items s @
                   [\<lparr>poi_id = next_id (map poi_id (purchase_order_items s)),
                     poi_purchase_order_id = po,
                     poi_product_id = the (pid_product_id item_data),
                     poi_quantity = the (pid_quantity item_data),
                     poi_unit_price = decimal_10_2 (the (pid_unit_price item_data)),
                     poi_received_quantity = 0\<rparr>]\<rparr>)
              (total_amount
                 + of_int (the (pid_quantity item_data)) * the (pid_unit_price item_data)))"

text \<open>
  \<open>order_number\<close> is what \<open>generate_order_number()\<close> returned for this request (a date
  and eight characters of a random UUID). The column is unique: when the number is
  taken, \<open>db.session.flush()\<close> raises \<open>IntegrityError\<close>, and the handler's
  \<open>except\<close> clause rolls back and answers 500. The payload is the order and its items.
\<close>

definition create_purchase_order ::
  "datetime \<Rightarrow> string \<Rightarrow> create_po_data \<Rightarrow> db
     \<Rightarrow> (purchase_order option \<times> purchase_order_item list) response \<times> db" where
  "create_purchase_order now order_number data db0 =
     (if cpd_supplier_id data = None \<or> cpd_supplier_id data = Some 0
         \<or> cpd_items data = None \<or> cpd_items data = Some []
      then end_request now db0 (Uncommitted
             (Inl (400, ''Supplier ID and items are required'')) db0)
      else
        case find (\<lambda>su. sup_id su = the (cpd_supplier_id data)) (suppliers db0) of
          None \<Rightarrow> end_request now db0 (Uncommitted (Inl (404, ''Supplier not found'')) db0)
        | Some supplier \<Rightarrow>
           (case cpd_expected_delivery data of
              BadDate str \<Rightarrow> end_request now db0 (Uncommitted
                  (Inl (500, ''Invalid isoformat string: '' @ [CHR 0x27] @ str @ [CHR 0x27])) db0)
            | _ \<Rightarrow>
              let purchase_order =
                    \<lparr>po_id = next_id (map po_id (purchase_orders db0)),
                     po_order_number = order_number,
                     po_supplier_id = the (cpd_supplier_id data),
                     po_status = ''pending'',
                     po_order_date = now,
                     po_expected_delivery =
                       (case cpd_expected_delivery data of IsoDate d \<Rightarrow> Some d | _ \<Rightarrow> None),
                     po_actual_delivery = None,
                     po_total_amount = 0,
                     po_notes = cpd_notes data,
                     po_created_at = now,
                     po_updated_at = now\<rparr>;
                  s1 = db0\<lparr>purchase_orders := purchase_orders db0 @ [purchase_order]\<rparr>
              in if order_number \<in> set (map po_order_number (purchase_orders db0))
                 then end_request now db0 (Uncommitted (Inl (500, ''IntegrityError'')) s1)
                 else
                   (case create_items (po_id purchase_order) (the (cpd_items data)) s1 0 of
                      Inl err \<Rightarrow> end_request now db0 (Uncommitted (Inl err) s1)
                    | Inr (s2, total_amount) \<Rightarrow>
                        let s3 = po_update (po_id purchase_order)
                                   (\<lambda>po. po\<lparr>po_total_amount := decimal_10_2 total_amount\<rparr>) s2
                        in end_request now db0 (Committed
                             (Inr (get_purchase_order (po_id purchase_order) (flush now db0 s3),
                                   po_items (po_id purchase_order) (flush now db0 s3))) s3))))"

subsection \<open>receive_purchase_order\<close>

record received_item =
  ri_po_item_id :: "int option"
  ri_received_quantity :: "int option"

record receive_data =
  rd_warehouse_id :: "int option"
  rd_received_items :: "received_item list option"

text \<open>One turn of the loop over \<open>data['received_items']\<close>.\<close>

definition receive_line ::
  "datetime \<Rightarrow> int \<Rightarrow> string \<Rightarrow> int \<Rightarrow> received_item \<Rightarrow> db \<Rightarrow> db" where
  "receive_line now po order_number warehouse_id received_item s =
     (let received_quantity = (case ri_received_quantity received_item of
                                 None \<Rightarrow> 0 | Some q \<Rightarrow> q)
      in if ri_po_item_id received_item = None \<or> ri_po_item_id received_item = Some 0
            \<or> received_quantity \<le> 0
         then s
         else
           case get_po_item (the (ri_po_item_id received_item)) s of
             None \<Rightarrow> s
           | Some po_item \<Rightarrow>
               if poi_purchase_order_id po_item \<noteq> po then s
               else
                 let s1 = poi_update (poi_id po_item)
                            (\<lambda>it. it\<lparr>poi_received_quantity :=
                                        poi_received_quantity it + received_quantity\<rparr>) s;
                     created = new_inventory now s1 (poi_product_id po_item) warehouse_id 10 1000;
                     item_id = (case find_inventory (poi_product_id po_item) warehouse_id s1 of
                                  Some r \<Rightarrow> inv_id r | None \<Rightarrow> inv_id created);
                     s2 = (case find_inventory (poi_product_id po_item) warehouse_id s1 of
                             Some r \<Rightarrow> s1 | None \<Rightarrow> session_add_inventory created s1);
                     s3 = inv_update item_id
                            (\<lambda>r. r\<lparr>inv_quantity := inv_quantity r + received_quantity\<rparr>) s2
                 in session_add_movement
                      (new_movement now s3 (poi_product_id po_item) warehouse_id ''in''
                         received_quantity (Some ''purchase_order'') (Some po)
                         (Some (''Received from PO '' @ order_number))) s3)"

definition all_received :: "int \<Rightarrow> db \<Rightarrow> bool" where
  "all_received po s =
     list_all (\<lambda>it. poi_received_quantity it \<ge> poi_quantity it) (po_items po s)"

definition receive_purchase_order ::
  "datetime \<Rightarrow> int \<Rightarrow> receive_data \<Rightarrow> db \<Rightarrow> purchase_order option response \<times> db" where
  "receive_purchase_order now po data db0 =
     (case get_purchase_order po db0 of
        None \<Rightarrow> end_request now db0 (Uncommitted (Inl (500, not_found_text)) db0)
      | Some purchase_order \<Rightarrow>
          if po_status purchase_order \<noteq> ''approved'' \<and> po_status purchase_order \<noteq> ''ordered''
          then end_request now db0 (Uncommitted
                 (Inl (409, ''Can only receive from approved or ordered purchase orders'')) db0)
          else if rd_warehouse_id data = None \<or> rd_warehouse_id data = Some 0
                  \<or> rd_received_items data = None \<or> rd_received_items data = Some []
          then end_request now db0 (Uncommitted
                 (Inl (400, ''Warehouse ID and received items are required'')) db0)
          else
            let s1 = fold (receive_line now po (po_order_number purchase_order)
                             (the (rd_warehouse_id data)))
                       (the (rd_received_items data)) db0;
                s2 = (if all_received po s1
                      then po_update po
                             (\<lambda>ord. ord\<lparr>po_status := ''received'', po_actual_delivery := Some now\<rparr>) s1
                      else s1)
            in end_request now db0 (Committed
                 (Inr (get_purchase_order po (flush now db0 s2))) s2))"

subsection \<open>cancel_purchase_order\<close>

definition cancel_purchase_order ::
  "datetime \<Rightarrow> int \<Rightarrow> db \<Rightarrow> purchase_order option response \<times> db" where
  "cancel_purchase_order now po db0 =
     (case get_purchase_order po db0 of
        None \<Rightarrow> end_request now db0 (Uncommitted (Inl (500, not_found_text)) db0)
      | Some purchase_order \<Rightarrow>
          if po_status purchase_order = ''received'' \<or> po_status purchase_order = ''cancelled''
          then end_request now db0 (Uncommitted
                 (Inl (409, ''Cannot cancel purchase order in current status'')) db0)
          else
            let s1 = po_update po (\<lambda>ord. ord\<lparr>po_status := ''cancelled''\<rparr>) db0
            in end_request now db0 (Committed
                 (Inr (get_purchase_order po (flush now db0 s1))) s1))"

section \<open>Inventory turnover (routes/reports.py)\<close>

text \<open>
  The query of \<open>get_inventory_turnover\<close> joins \<open>products\<close> with \<open>stock_movements\<close> and
  with \<open>inventory\<close> on the product id, keeps the \<open>out\<close> movements since \<open>start_date\<close>,
  and groups by product: a group is the list of the (movement, inventory row) pairs of a
  product, \<open>func.sum(StockMovement.quantity)\<close> and \<open>func.avg(Inventory.quantity)\<close> run
  over the pairs, and a product with no pair has no row. The groups are taken in the
  order of the products. Averages, quotients and \<open>round(x, 2)\<close> are exact rationals here
  (the program has the database's decimals and Python's numbers there).
\<close>

definition turnover_join :: "datetime \<Rightarrow> db \<Rightarrow> product \<Rightarrow> (stock_movement \<times> inventory_row) list" where
  "turnover_join start_date s pr =
     [(m, i). m \<leftarrow> stock_movements s, sm_product_id m = prod_id pr,
              i \<leftarrow> inventory s, inv_product_id i = prod_id pr,
              sm_created_at m \<ge> start_date, sm_movement_type m = ''out'']"

definition turnover_data :: "datetime \<Rightarrow> db \<Rightarrow> (product \<times> int \<times> rat) list" where
  "turnover_data start_date s =
     concat (map (\<lambda>pr.
        let joined = turnover_join start_date s pr
        in if joined = [] then []
           else [(pr, sum_list (map (\<lambda>(m, i). sm_quantity m) joined),
                  of_int (sum_list (map (\<lambda>(m, i). inv_quantity i) joined))
                    / of_nat (length joined))])
        (products s))"

text \<open>\<open>round(x, 2)\<close>: to the nearest multiple of 1/100, a tie to the even one.\<close>

definition py_round2 :: "rat \<Rightarrow> rat" where
  "py_round2 x =
     (let y = x * 100; f = \<lfloor>y\<rfloor>; d = y - of_int f
      in of_int (if d < 1 / 2 then f else if 1 / 2 < d then f + 1
                 else if even f then f else f + 1) / 100)"

record turnover_row =
  tr_product_id :: int
  tr_product_name :: string
  tr_sku :: string
  tr_total_movement :: int
  tr_avg_inventory :: rat
  tr_turnover_rate :: rat

text \<open>
  \<open>days\<close> is the query parameter (30 when absent); \<open>results.sort(key=..., reverse=True)\<close>
  is a stable sort in descending order of the key.
\<close>

definition get_inventory_turnover :: "datetime \<Rightarrow> int \<Rightarrow> db \<Rightarrow> turnover_row list" where
  "get_inventory_turnover now days s =
     (let start_date = now - days * 86400;
          results = map (\<lambda>(pr, total_movement, avg_inventory).
                      let turnover_rate = (if avg_inventory > 0
                                           then of_int total_movement / avg_inventory else 0)
                      in \<lparr>tr_product_id = prod_id pr, tr_product_name = prod_name pr,
                          tr_sku = prod_sku pr, tr_total_movement = total_movement,
                          tr_avg_inventory = avg_inventory,
                          tr_turnover_rate = py_round2 turnover_rate\<rparr>)
                    (turnover_data start_date s)
      in sort_key (\<lambda>r. - tr_turnover_rate r) results)"

section \<open>The notions of the claims\<close>

text \<open>
  The quantity on hand of a (product, warehouse) pair: the quantity of its stock level,
  and 0 for a pair without one (the handlers start a new stock level at 0).
\<close>

definition quantity_of :: "int \<Rightarrow> int \<Rightarrow> db \<Rightarrow> int" where
  "quantity_of p w s = (case find_inventory p w s of None \<Rightarrow> 0 | Some r \<Rightarrow> inv_quantity r)"

text \<open>
  The movements of a (product, warehouse) pair, and their sum signed by type: an \<open>in\<close>
  movement adds its quantity, an \<open>out\<close> movement takes it away. The type of any other
  movement (\<open>transfer\<close>, \<open>adjustment\<close>) does not say a direction; it counts as 0.
\<close>

definition movements_of :: "int \<Rightarrow> int \<Rightarrow> db \<Rightarrow> stock_movement list" where
  "movements_of p w s =
     filter (\<lambda>m. sm_product_id m = p \<and> sm_warehouse_id m = w) (stock_movements s)"

definition movement_sign :: "string \<Rightarrow> int" where
  "movement_sign t = (if t = ''in'' then 1 else if t = ''out'' then - 1 else 0)"

definition signed_quantity :: "stock_movement \<Rightarrow> int" where
  "signed_quantity m = movement_sign (sm_movement_type m) * \<bar>sm_quantity m\<bar>"

definition ledger_balance :: "int \<Rightarrow> int \<Rightarrow> db \<Rightarrow> int" where
  "ledger_balance p w s = sum_list (map signed_quantity (movements_of p w s))"

text \<open>The ledger invariant: the movements of every stock level sum to its quantity.\<close>

definition reconciles :: "db \<Rightarrow> bool" where
  "reconciles s =
     list_all (\<lambda>r. ledger_balance (inv_product_id r) (inv_warehouse_id r) s = inv_quantity r)
       (inventory s)"

text \<open>
  An adjust call for the pair (\<open>p\<close>, \<open>w\<close>) with its four required keys; and a call whose
  movement type follows the sign of its quantity change (\<open>in\<close> for a positive change,
  \<open>out\<close> for a negative one).
\<close>

definition adjust_for :: "int \<Rightarrow> int \<Rightarrow> adjust_data \<Rightarrow> bool" where
  "adjust_for p w data \<longleftrightarrow>
     ad_product_id data = Some p \<and> ad_warehouse_id data = Some w
     \<and> ad_quantity_change data \<noteq> None \<and> ad_movement_type data \<noteq> None"

definition type_follows_sign :: "adjust_data \<Rightarrow> bool" where
  "type_follows_sign data \<longleftrightarrow>
     (case ad_quantity_change data of
        None \<Rightarrow> True
      | Some d \<Rightarrow> (0 < d \<longrightarrow> ad_movement_type data = Some ''in'')
                 \<and> (d < 0 \<longrightarrow> ad_movement_type data = Some ''out''))"

text \<open>
  A sequence of adjust calls, each at its time; the quantity changes of the calls that
  were accepted.
\<close>

fun adjust_all :: "(datetime \<times> adjust_data) list \<Rightarrow> db \<Rightarrow> db" where
  "adjust_all [] s = s"
| "adjust_all ((now, data) # calls) s = adjust_all calls (snd (adjust_inventory now data s))"

fun accepted_changes :: "(datetime \<times> adjust_data) list \<Rightarrow> db \<Rightarrow> int list" where
  "accepted_changes [] s = []"
| "accepted_changes ((now, data) # calls) s =
     (case fst (adjust_inventory now data s) of
        Inl err \<Rightarrow> []
      | Inr payload \<Rightarrow> (case ad_quantity_change data of None \<Rightarrow> [] | Some d \<Rightarrow> [d]))
     @ accepted_changes calls (snd (adjust_inventory now data s))"

text \<open>The database's primary key on \<open>inventory.id\<close>.\<close>

definition inventory_keys_unique :: "db \<Rightarrow> bool" where
  "inventory_keys_unique s = distinct (map inv_id (inventory s))"

text \<open>A stock level without its time stamp.\<close>

definition stock_content :: "inventory_row \<Rightarrow> int \<times> int \<times> int \<times> int \<times> int \<times> int" where
  "stock_content r =
     (inv_id r, inv_product_id r, inv_warehouse_id r, inv_quantity r, inv_reorder_level r,
      inv_max_stock_level r)"

text \<open>An item of a purchase order before and after: the same item, with no less received.\<close>

definition item_progress :: "purchase_order_item \<Rightarrow> purchase_order_item \<Rightarrow> bool" where
  "item_progress i i' \<longleftrightarrow>
     poi_id i' = poi_id i \<and> poi_purchase_order_id i' = poi_purchase_order_id i
     \<and> poi_product_id i' = poi_product_id i \<and> poi_quantity i' = poi_quantity i
     \<and> poi_unit_price i' = poi_unit_price i
     \<and> poi_received_quantity i \<le> poi_received_quantity i'"

text \<open>A sequence of receive calls on one purchase order.\<close>

fun receive_all :: "(datetime \<times> receive_data) list \<Rightarrow> int \<Rightarrow> db \<Rightarrow> db" where
  "receive_all [] po s = s"
| "receive_all ((now, data) # calls) po s =
     receive_all calls po (snd (receive_purchase_order now po data s))"

text \<open>The rate of the specification: the \<open>out\<close> quantity of the window over the average stock.\<close>

definition total_out_quantity :: "datetime \<Rightarrow> int \<Rightarrow> db \<Rightarrow> int" where
  "total_out_quantity start_date p s =
     sum_list (map sm_quantity
       (filter (\<lambda>m. sm_product_id m = p \<and> sm_created_at m \<ge> start_date
                     \<and> sm_movement_type m = ''out'') (stock_movements s)))"

definition average_inventory :: "int \<Rightarrow> db \<Rightarrow> rat" where
  "average_inventory p s =
     (let rows = filter (\<lambda>i. inv_product_id i = p) (inventory s)
      in of_int (sum_list (map inv_quantity rows)) / of_nat (length rows))"

section \<open>Example data\<close>

text \<open>
  A small database: one product with a barcode, one supplier, five units of the product
  in warehouse 1, recorded by one \<open>in\<close> movement.
\<close>

definition db_example :: db where
  "db_example =
     \<lparr>products = [\<lparr>prod_id = 1, prod_name = ''Widget'', prod_sku = ''W-1'',
                    prod_barcode = Some ''000001000001''\<rparr>],
      suppliers = [\<lparr>sup_id = 1, sup_name = ''Acme''\<rparr>],
      inventory = [\<lparr>inv_id = 1, inv_product_id = 1, inv_warehouse_id = 1, inv_quantity = 5,
                     inv_reorder_level = 10, inv_max_stock_level = 1000, inv_last_updated = 3\<rparr>],
      stock_movements = [\<lparr>sm_id = 1, sm_product_id = 1, sm_warehouse_id = 1,
                           sm_movement_type = ''in'', sm_quantity = 5, sm_reference_type = None,
                           sm_reference_id = None, sm_notes = None, sm_created_at = 3\<rparr>],
      purchase_orders = [],
      purchase_order_items = []\<rparr>"

text \<open>
  The same database with an approved purchase order of ten units of the product.
\<close>

definition po_example :: purchase_order where
  "po_example =
     \<lparr>po_id = 1, po_order_number = ''PO-20240101-1A2B3C4D'', po_supplier_id = 1,
      po_status = ''approved'', po_order_date = 4, po_expected_delivery = None,
      po_actual_delivery = None, po_total_amount = 50, po_notes = None, po_created_at = 4,
      po_updated_at = 5\<rparr>"

definition db_po_example :: db where
  "db_po_example =
     db_example\<lparr>purchase_orders := [po_example],
                 purchase_order_items :=
                   [\<lparr>poi_id = 1, poi_purchase_order_id = 1, poi_product_id = 1,
                     poi_quantity = 10, poi_unit_price = 5, poi_received_quantity = 0\<rparr>]\<rparr>"

text \<open>A product with ten units in each of two warehouses, and one \<open>out\<close> movement of five.\<close>

definition db_two_warehouses :: db where
  "db_two_warehouses =
     \<lparr>products = [\<lparr>prod_id = 1, prod_name = ''Widget'', prod_sku = ''W-1'',
                    prod_barcode = Some ''000001000001''\<rparr>],
      suppliers = [],
      inventory = [\<lparr>inv_id = 1, inv_product_id = 1, inv_warehouse_id = 1, inv_quantity = 10,
                     inv_reorder_level = 10, inv_max_stock_level = 1000, inv_last_updated = 50\<rparr>,
                   \<lparr>inv_id = 2, inv_product_id = 1, inv_warehouse_id = 2, inv_quantity = 10,
                     inv_reorder_level = 10, inv_max_stock_level = 1000, inv_last_updated = 40\<rparr>],
      stock_movements = [\<lparr>sm_id = 1, sm_product_id = 1, sm_warehouse_id = 1,
                           sm_movement_type = ''in'', sm_quantity = 15, sm_reference_type = None,
                           sm_reference_id = None, sm_notes = None, sm_created_at = 30\<rparr>,
                         \<lparr>sm_id = 2, sm_product_id = 1, sm_warehouse_id = 2,
                           sm_movement_type = ''in'', sm_quantity = 10, sm_reference_type = None,
                           sm_reference_id = None, sm_notes = None, sm_created_at = 40\<rparr>,
                         \<lparr>sm_id = 3, sm_product_id = 1, sm_warehouse_id = 1,
                           sm_movement_type = ''out'', sm_quantity = 5, sm_reference_type = None,
                           sm_reference_id = None, sm_notes = None, sm_created_at = 50\<rparr>],
      purchase_orders = [],
      purchase_order_items = []\<rparr>"

definition transfer_call :: "int \<Rightarrow> int \<Rightarrow> int \<Rightarrow> int \<Rightarrow> transfer_data" where
  "transfer_call p a b n =
     \<lparr>td_product_id = Some p, td_from_warehouse_id = Some a, td_to_warehouse_id = Some b,
      td_quantity = Some n\<rparr>"

definition count_call :: "string \<Rightarrow> int \<Rightarrow> int \<Rightarrow> count_data" where
  "count_call b w c =
     \<lparr>cd_barcode = Some b, cd_warehouse_id = Some w, cd_counted_quantity = Some c\<rparr>"

definition item_call :: "int \<Rightarrow> int \<Rightarrow> rat \<Rightarrow> po_item_data" where
  "item_call p q u = \<lparr>pid_product_id = Some p, pid_quantity = Some q, pid_unit_price = Some u\<rparr>"

definition create_call :: "int \<Rightarrow> po_item_data list \<Rightarrow> create_po_data" where
  "create_call sid items =
     \<lparr>cpd_supplier_id = Some sid, cpd_items = Some items, cpd_expected_delivery = NoDate,
      cpd_notes = None\<rparr>"

definition receive_call :: "int \<Rightarrow> (int \<times> int) list \<Rightarrow> receive_data" where
  "receive_call w lines =
     \<lparr>rd_warehouse_id = Some w,
      rd_received_items =
        Some (map (\<lambda>(i, q). \<lparr>ri_po_item_id = Some i, ri_received_quantity = Some q\<rparr>) lines)\<rparr>"

definition adjust_call :: "int \<Rightarrow> int \<Rightarrow> int \<Rightarrow> string \<Rightarrow> adjust_data" where
  "adjust_call p w d t =
     \<lparr>ad_product_id = Some p, ad_warehouse_id = Some w, ad_quantity_change = Some d,
      ad_movement_type = Some t, ad_reorder_level = None, ad_max_stock_level = None,
      ad_reference_type = None, ad_reference_id = None, ad_notes = None\<rparr>"

section \<open>Facts about the session\<close>

lemma find_map_pres:
  assumes "\<And>x. x \<in> set xs \<Longrightarrow> P (f x) = P x"
  shows "find P (map f xs) = map_option f (find P xs)"
  using assms by (induction xs) auto

lemma stamp_inventory_old [simp]: "map (stamp_inventory now old) old = old"
  by (simp add: stamp_inventory_def map_idI)

lemma stamp_purchase_order_old [simp]: "map (stamp_purchase_order now old) old = old"
  by (simp add: stamp_purchase_order_def map_idI)

lemma stamp_inv_fields [simp]:
  "inv_id (stamp_inventory now old r) = inv_id r"
  "inv_product_id (stamp_inventory now old r) = inv_product_id r"
  "inv_warehouse_id (stamp_inventory now old r) = inv_warehouse_id r"
  "inv_quantity (stamp_inventory now old r) = inv_quantity r"
  "inv_reorder_level (stamp_inventory now old r) = inv_reorder_level r"
  "inv_max_stock_level (stamp_inventory now old r) = inv_max_stock_level r"
  by (simp_all add: stamp_inventory_def)

lemma stamp_po_fields [simp]:
  "po_id (stamp_purchase_order now old r) = po_id r"
  "po_status (stamp_purchase_order now old r) = po_status r"
  "po_actual_delivery (stamp_purchase_order now old r) = po_actual_delivery r"
  "po_total_amount (stamp_purchase_order now old r) = po_total_amount r"
  by (simp_all add: stamp_purchase_order_def)

lemma flush_fields [simp]:
  "stock_movements (flush now db0 s) = stock_movements s"
  "purchase_order_items (flush now db0 s) = purchase_order_items s"
  "products (flush now db0 s) = products s"
  "suppliers (flush now db0 s) = suppliers s"
  "inventory (flush now db0 s) = map (stamp_inventory now (inventory db0)) (inventory s)"
  "purchase_orders (flush now db0 s) =
     map (stamp_purchase_order now (purchase_orders db0)) (purchase_orders s)"
  by (simp_all add: flush_def)

lemma inv_update_fields [simp]:
  "stock_movements (inv_update i f s) = stock_movements s"
  "purchase_order_items (inv_update i f s) = purchase_order_items s"
  "purchase_orders (inv_update i f s) = purchase_orders s"
  "products (inv_update i f s) = products s"
  "suppliers (inv_update i f s) = suppliers s"
  by (simp_all add: inv_update_def)

lemma po_update_fields [simp]:
  "inventory (po_update i f s) = inventory s"
  "stock_movements (po_update i f s) = stock_movements s"
  "purchase_order_items (po_update i f s) = purchase_order_items s"
  "products (po_update i f s) = products s"
  "suppliers (po_update i f s) = suppliers s"
  by (simp_all add: po_update_def)

lemma get_inventory_row_flush:
  "get_inventory_row i (flush now db0 s) =
     map_option (stamp_inventory now (inventory db0)) (get_inventory_row i s)"
  by (simp add: get_inventory_row_def find_map_pres)

lemma get_inventory_row_update:
  assumes "\<And>x. inv_id (f x) = inv_id x"
  shows "get_inventory_row i (inv_update i f s) = map_option f (get_inventory_row i s)"
proof -
  have "find (\<lambda>r. inv_id r = i) (map (\<lambda>r. if inv_id r = i then f r else r) xs)
        = map_option f (find (\<lambda>r. inv_id r = i) xs)" for xs
    by (induction xs) (auto simp: assms)
  then show ?thesis by (simp add: get_inventory_row_def inv_update_def)
qed

lemma get_inventory_row_mem:
  "get_inventory_row i s = Some r \<Longrightarrow> r \<in> set (inventory s)"
  by (auto simp: get_inventory_row_def find_Some_iff)

lemma get_purchase_order_flush:
  "get_purchase_order i (flush now db0 s) =
     map_option (stamp_purchase_order now (purchase_orders db0)) (get_purchase_order i s)"
  by (simp add: get_purchase_order_def find_map_pres)

lemma get_purchase_order_update:
  assumes "\<And>x. po_id (f x) = po_id x"
  shows "get_purchase_order i (po_update i f s) = map_option f (get_purchase_order i s)"
proof -
  have "find (\<lambda>po. po_id po = i) (map (\<lambda>po. if po_id po = i then f po else po) xs)
        = map_option f (find (\<lambda>po. po_id po = i) xs)" for xs
    by (induction xs) (auto simp: assms)
  then show ?thesis by (simp add: get_purchase_order_def po_update_def)
qed

lemma ledger_balance_cong:
  "stock_movements s' = stock_movements s \<Longrightarrow> ledger_balance p w s' = ledger_balance p w s"
  by (simp add: ledger_balance_def movements_of_def)

lemma update_inventory_item_row:
  assumes "get_inventory_row i db0 = Some r" and "ud_quantity data = Some q"
  shows "\<exists>payload db' r'. update_inventory_item now i data db0 = (Inr payload, db')
           \<and> get_inventory_row i db' = Some r'
           \<and> inv_quantity r' = q
           \<and> inv_product_id r' = inv_product_id r
           \<and> inv_warehouse_id r' = inv_warehouse_id r
           \<and> stock_movements db' = stock_movements db0"
  using assms
  by (auto simp add: update_inventory_item_def Let_def get_inventory_row_flush
        get_inventory_row_update split: option.splits)

lemma session_add_fields [simp]:
  "stock_movements (session_add_inventory r s) = stock_movements s"
  "purchase_order_items (session_add_inventory r s) = purchase_order_items s"
  "purchase_orders (session_add_inventory r s) = purchase_orders s"
  "products (session_add_inventory r s) = products s"
  "suppliers (session_add_inventory r s) = suppliers s"
  "inventory (session_add_inventory r s) = inventory s @ [r]"
  "inventory (session_add_movement m s) = inventory s"
  "purchase_order_items (session_add_movement m s) = purchase_order_items s"
  "purchase_orders (session_add_movement m s) = purchase_orders s"
  "products (session_add_movement m s) = products s"
  "suppliers (session_add_movement m s) = suppliers s"
  "stock_movements (session_add_movement m s) = stock_movements s @ [m]"
  by (simp_all add: session_add_inventory_def session_add_movement_def)

lemma inventory_inv_update:
  "inventory (inv_update i f s) = map (\<lambda>r. if inv_id r = i then f r else r) (inventory s)"
  by (simp add: inv_update_def)

lemma new_inventory_fields [simp]:
  "inv_id (new_inventory now s p w rl ml) = next_id (map inv_id (inventory s))"
  "inv_product_id (new_inventory now s p w rl ml) = p"
  "inv_warehouse_id (new_inventory now s p w rl ml) = w"
  "inv_quantity (new_inventory now s p w rl ml) = 0"
  by (simp_all add: new_inventory_def)

lemma next_id_fresh: "next_id ids \<notin> set ids"
proof
  assume "next_id ids \<in> set ids"
  then have "next_id ids \<le> Max (insert 0 (set ids))"
    by (intro Max_ge) auto
  then show False by (simp add: next_id_def)
qed

lemma find_inventory_flush:
  "find_inventory p w (flush now db0 s) =
     map_option (stamp_inventory now (inventory db0)) (find_inventory p w s)"
  by (simp add: find_inventory_def find_map_pres)

lemma find_inventory_update:
  assumes "\<And>x. inv_product_id (f x) = inv_product_id x"
    and "\<And>x. inv_warehouse_id (f x) = inv_warehouse_id x"
  shows "find_inventory p w (inv_update i f s) =
           map_option (\<lambda>r. if inv_id r = i then f r else r) (find_inventory p w s)"
  by (simp add: find_inventory_def inv_update_def find_map_pres assms)

lemma find_inventory_add:
  "find_inventory p w (session_add_inventory r s) =
     (case find_inventory p w s of
        Some x \<Rightarrow> Some x
      | None \<Rightarrow> if inv_product_id r = p \<and> inv_warehouse_id r = w then Some r else None)"
proof -
  have "find P (xs @ [r]) = (case find P xs of Some x \<Rightarrow> Some x
                             | None \<Rightarrow> if P r then Some r else None)" for P xs
    by (induction xs) auto
  then show ?thesis by (simp add: find_inventory_def session_add_inventory_def)
qed

lemma find_inventory_add_movement [simp]:
  "find_inventory p w (session_add_movement m s) = find_inventory p w s"
  by (simp add: find_inventory_def)

lemma find_inventory_mem:
  "find_inventory p w s = Some r \<Longrightarrow> r \<in> set (inventory s)"
  by (auto simp: find_inventory_def find_Some_iff)

lemma find_inventory_key:
  "find_inventory p w s = Some r \<Longrightarrow> inv_product_id r = p \<and> inv_warehouse_id r = w"
  by (auto simp: find_inventory_def find_Some_iff)

lemma unique_row:
  assumes "distinct (map inv_id xs)" "r \<in> set xs" "x \<in> set xs" "inv_id x = inv_id r"
  shows "x = r"
  using assms by (meson distinct_map inj_onD)

lemma keys_unique_flush [simp]:
  "inventory_keys_unique (flush now db0 s) = inventory_keys_unique s"
  by (simp add: inventory_keys_unique_def comp_def)

lemma keys_unique_add_movement [simp]:
  "inventory_keys_unique (session_add_movement m s) = inventory_keys_unique s"
  by (simp add: inventory_keys_unique_def)

lemma keys_unique_update:
  assumes "\<And>x. inv_id (f x) = inv_id x"
  shows "inventory_keys_unique (inv_update i f s) = inventory_keys_unique s"
proof -
  have "inv_id \<circ> (\<lambda>r. if inv_id r = i then f r else r) = inv_id"
    by (rule ext) (simp add: assms)
  then show ?thesis by (simp add: inventory_keys_unique_def inv_update_def)
qed

lemma keys_unique_add:
  "inventory_keys_unique s \<Longrightarrow>
   inventory_keys_unique (session_add_inventory (new_inventory now s p w rl ml) s)"
  using next_id_fresh [of "map inv_id (inventory s)"]
  by (simp add: inventory_keys_unique_def)

lemma stamp_inventory_now [simp]:
  "stamp_inventory now old (r\<lparr>inv_last_updated := now\<rparr>) = r\<lparr>inv_last_updated := now\<rparr>"
  by (simp add: stamp_inventory_def)

lemma stamp_inventory_last_updated [simp]:
  "inv_last_updated r = now \<Longrightarrow> inv_last_updated (stamp_inventory now old r) = now"
  by (simp add: stamp_inventory_def)

lemma stock_content_stamp [simp]:
  "stock_content (stamp_inventory now old r) = stock_content r"
  by (simp add: stock_content_def)

subsection \<open>Stock count\<close>

lemma scan_count_same_quantity:
  assumes "cd_barcode data = Some b" and "cd_warehouse_id data = Some w"
    and "cd_counted_quantity data = Some c" and "0 \<le> c"
    and pr: "find (\<lambda>pr. prod_barcode pr = Some b) (products db0) = Some pr"
    and r: "find_inventory (prod_id pr) w db0 = Some r"
    and c: "inv_quantity r = c"
    and u: "inventory_keys_unique db0"
  shows "\<exists>payload db'. scan_count now data db0 = (Inr payload, db')
           \<and> stock_movements db' = stock_movements db0
           \<and> map stock_content (inventory db') = map stock_content (inventory db0)
           \<and> find_inventory (prod_id pr) w db' = Some (r\<lparr>inv_last_updated := now\<rparr>)
           \<and> purchase_orders db' = purchase_orders db0
           \<and> purchase_order_items db' = purchase_order_items db0
           \<and> products db' = products db0 \<and> suppliers db' = suppliers db0"
proof -
  let ?upd = "\<lambda>x. if inv_id x = inv_id r
                   then x\<lparr>inv_quantity := c, inv_last_updated := now\<rparr> else x"
  have same: "stock_content (?upd x) = stock_content x" if "x \<in> set (inventory db0)" for x
    using unique_row [OF u [unfolded inventory_keys_unique_def] find_inventory_mem [OF r] that] c
    by (auto simp: stock_content_def)
  have cont: "map stock_content (map (stamp_inventory now (inventory db0)) (map ?upd (inventory db0)))
                = map stock_content (inventory db0)"
    using same by (simp add: comp_def cong: map_cong)
  have upd_r: "r\<lparr>inv_quantity := c, inv_last_updated := now\<rparr> = r\<lparr>inv_last_updated := now\<rparr>"
    using c by simp
  show ?thesis
    using assms(1-4) pr r c cont
    by (simp add: scan_count_def Let_def inventory_inv_update find_inventory_flush
        find_inventory_update upd_r)
qed

lemma scan_count_after:
  assumes "cd_barcode data = Some b" and "cd_warehouse_id data = Some w"
    and "cd_counted_quantity data = Some c" and "0 \<le> c"
    and pr: "find (\<lambda>pr. prod_barcode pr = Some b) (products db0) = Some pr"
    and u: "inventory_keys_unique db0"
  shows "\<exists>payload db1 r1. scan_count now data db0 = (Inr payload, db1)
           \<and> find_inventory (prod_id pr) w db1 = Some r1 \<and> inv_quantity r1 = c
           \<and> inv_last_updated r1 = now
           \<and> inventory_keys_unique db1 \<and> products db1 = products db0"
proof (cases "find_inventory (prod_id pr) w db0")
  case None
  let ?new = "new_inventory now db0 (prod_id pr) w 10 1000"
  have k: "inventory_keys_unique (session_add_inventory ?new db0)"
    by (rule keys_unique_add [OF u])
  show ?thesis
    using assms(1-4) pr None k
    by (simp add: scan_count_def Let_def find_inventory_flush find_inventory_update
        find_inventory_add keys_unique_update)
next
  case (Some r)
  show ?thesis
    using assms(1-4) pr Some u
    by (simp add: scan_count_def Let_def find_inventory_flush find_inventory_update
        keys_unique_update)
qed

subsection \<open>Transfer\<close>

lemma quantity_of_flush [simp]:
  "quantity_of p w (flush now db0 s) = quantity_of p w s"
  by (simp add: quantity_of_def find_inventory_flush split: option.splits)

lemma quantity_of_add_movement [simp]:
  "quantity_of p w (session_add_movement m s) = quantity_of p w s"
  by (simp add: quantity_of_def)

lemma transfer_quantities:
  fixes now :: datetime and n :: int and db0 :: db and p b :: int
  assumes src: "find_inventory p a db0 = Some src"
    and ab: "a \<noteq> b" and u: "inventory_keys_unique db0"
  defines "created \<equiv> new_inventory now db0 p b 10 1000"
  defines "dest_id \<equiv> (case find_inventory p b db0 of Some r \<Rightarrow> inv_id r | None \<Rightarrow> inv_id created)"
  defines "s1 \<equiv> (case find_inventory p b db0 of Some r \<Rightarrow> db0
                  | None \<Rightarrow> session_add_inventory created db0)"
  defines "s3 \<equiv> inv_update dest_id (\<lambda>r. r\<lparr>inv_quantity := inv_quantity r + n\<rparr>)
                  (inv_update (inv_id src) (\<lambda>r. r\<lparr>inv_quantity := inv_quantity r - n\<rparr>) s1)"
  shows "quantity_of p a s3 = inv_quantity src - n"
    and "quantity_of p b s3 = quantity_of p b db0 + n"
proof -
  have src_mem: "src \<in> set (inventory db0)"
    by (rule find_inventory_mem [OF src])
  have src_key: "inv_warehouse_id src = a"
    using find_inventory_key [OF src] by simp
  have ne: "dest_id \<noteq> inv_id src"
  proof (cases "find_inventory p b db0")
    case None
    have "next_id (map inv_id (inventory db0)) \<noteq> inv_id src"
      using next_id_fresh [of "map inv_id (inventory db0)"] src_mem by force
    with None show ?thesis by (simp add: dest_id_def created_def)
  next
    case (Some r)
    have "inv_id r \<noteq> inv_id src"
    proof
      assume "inv_id r = inv_id src"
      then have "r = src"
        using unique_row [OF u [unfolded inventory_keys_unique_def] src_mem
                find_inventory_mem [OF Some]] by simp
      with find_inventory_key [OF Some] src_key ab show False by simp
    qed
    with Some show ?thesis by (simp add: dest_id_def)
  qed
  have a1: "find_inventory p a s1 = Some src"
    using src by (simp add: s1_def find_inventory_add split: option.splits)
  show "quantity_of p a s3 = inv_quantity src - n"
    using a1 ne by (simp add: quantity_of_def s3_def find_inventory_update)
  show "quantity_of p b s3 = quantity_of p b db0 + n"
  proof (cases "find_inventory p b db0")
    case None
    then have "find_inventory p b s1 = Some created"
      by (simp add: s1_def find_inventory_add created_def)
    moreover have "inv_id created = dest_id" "inv_quantity created = 0"
      using None by (simp_all add: dest_id_def created_def)
    ultimately show ?thesis
      using ne None by (simp add: quantity_of_def s3_def find_inventory_update)
  next
    case (Some r)
    then have "find_inventory p b s1 = Some r" "dest_id = inv_id r"
      by (simp_all add: s1_def dest_id_def)
    then show ?thesis
      using ne Some by (simp add: quantity_of_def s3_def find_inventory_update)
  qed
qed

subsection \<open>Receipt of a purchase order\<close>

lemma poi_update_fields [simp]:
  "inventory (poi_update i f s) = inventory s"
  "stock_movements (poi_update i f s) = stock_movements s"
  "purchase_orders (poi_update i f s) = purchase_orders s"
  "products (poi_update i f s) = products s"
  "suppliers (poi_update i f s) = suppliers s"
  "purchase_order_items (poi_update i f s) =
     map (\<lambda>it. if poi_id it = i then f it else it) (purchase_order_items s)"
  by (simp_all add: poi_update_def)

lemma item_progress_refl [simp]: "item_progress i i"
  by (simp add: item_progress_def)

lemma item_progress_trans:
  "item_progress a b \<Longrightarrow> item_progress b c \<Longrightarrow> item_progress a c"
  by (auto simp: item_progress_def)

lemma items_progress_refl [simp]: "list_all2 item_progress xs xs"
  by (simp add: list_all2_refl)

lemma items_progress_trans:
  "list_all2 item_progress xs ys \<Longrightarrow> list_all2 item_progress ys zs \<Longrightarrow>
   list_all2 item_progress xs zs"
  by (rule list_all2_trans [OF item_progress_trans])

lemma receive_line_orders [simp]:
  "purchase_orders (receive_line now po num w ri s) = purchase_orders s"
  by (simp add: receive_line_def Let_def split: option.splits)

lemma receive_line_progress:
  "list_all2 item_progress (purchase_order_items s)
     (purchase_order_items (receive_line now po num w ri s))"
  by (auto simp add: receive_line_def Let_def list_all2_map2 item_progress_def
      intro!: list_all2_refl split: option.splits)

lemma fold_receive_orders [simp]:
  "purchase_orders (fold (receive_line now po num w) lines s) = purchase_orders s"
  by (induction lines arbitrary: s) simp_all

lemma fold_receive_progress:
  "list_all2 item_progress (purchase_order_items s)
     (purchase_order_items (fold (receive_line now po num w) lines s))"
proof (induction lines arbitrary: s)
  case Nil
  then show ?case by simp
next
  case (Cons ri lines)
  show ?case
    using items_progress_trans [OF receive_line_progress Cons.IH] by simp
qed

lemma receive_purchase_order_progress_step:
  "list_all2 item_progress (purchase_order_items db0)
     (purchase_order_items (snd (receive_purchase_order now po data db0)))"
  by (simp add: receive_purchase_order_def Let_def fold_receive_progress split: option.splits)

lemma receive_all_progress:
  "list_all2 item_progress (purchase_order_items db0)
     (purchase_order_items (receive_all calls po db0))"
proof (induction calls arbitrary: db0)
  case Nil
  then show ?case by simp
next
  case (Cons c calls)
  obtain now data where c: "c = (now, data)" by (cases c)
  show ?case
    using items_progress_trans [OF receive_purchase_order_progress_step Cons.IH]
    by (simp add: c)
qed

lemma all_received_cong:
  "purchase_order_items s' = purchase_order_items s \<Longrightarrow> all_received po s' = all_received po s"
  by (simp add: all_received_def po_items_def)

lemma get_purchase_order_cong:
  "purchase_orders s' = purchase_orders s \<Longrightarrow> get_purchase_order po s' = get_purchase_order po s"
  by (simp add: get_purchase_order_def)

lemma receive_purchase_order_status:
  assumes g: "get_purchase_order po db0 = Some ord"
    and st: "po_status ord = ''approved'' \<or> po_status ord = ''ordered''"
    and w: "rd_warehouse_id data \<noteq> None" "rd_warehouse_id data \<noteq> Some 0"
    and l: "rd_received_items data \<noteq> None" "rd_received_items data \<noteq> Some []"
  shows "\<exists>payload db' ord'.
           receive_purchase_order now po data db0 = (Inr payload, db')
         \<and> get_purchase_order po db' = Some ord'
         \<and> (po_status ord' = ''received'' \<longleftrightarrow> all_received po db')
         \<and> (all_received po db' \<longrightarrow> po_actual_delivery ord' = Some now)
         \<and> (\<not> all_received po db' \<longrightarrow>
               po_status ord' = po_status ord
             \<and> po_actual_delivery ord' = po_actual_delivery ord)"
proof -
  let ?s1 = "fold (receive_line now po (po_order_number ord) (the (rd_warehouse_id data)))
               (the (rd_received_items data)) db0"
  have g1: "get_purchase_order po ?s1 = Some ord"
    using g by (simp add: get_purchase_order_cong [of ?s1 db0])
  have ne: "po_status ord \<noteq> ''received''"
    using st by auto
  show ?thesis
  proof (cases "all_received po ?s1")
    case True
    let ?s2 = "po_update po
                 (\<lambda>ord. ord\<lparr>po_status := ''received'', po_actual_delivery := Some now\<rparr>) ?s1"
    have a: "all_received po (flush now db0 ?s2)"
      using True by (simp add: all_received_cong [of "flush now db0 ?s2" ?s1])
    show ?thesis
      using g st w l True g1 a
      by (simp add: receive_purchase_order_def Let_def get_purchase_order_flush
          get_purchase_order_update)
  next
    case False
    have a: "\<not> all_received po (flush now db0 ?s1)"
      using False by (simp add: all_received_cong [of "flush now db0 ?s1" ?s1])
    show ?thesis
      using g st w l False g1 a ne
      by (simp add: receive_purchase_order_def Let_def get_purchase_order_flush)
  qed
qed


subsection \<open>Adjustment\<close>

lemma adjust_inventory_step:
  assumes f: "ad_product_id data = Some p" "ad_warehouse_id data = Some w"
    "ad_quantity_change data = Some d" "ad_movement_type data = Some t"
  shows "if quantity_of p w s + d < 0
         then adjust_inventory now data s = (Inl (400, ''Insufficient stock for this operation''), s)
         else (\<exists>payload s' m. adjust_inventory now data s = (Inr payload, s')
                 \<and> quantity_of p w s' = quantity_of p w s + d
                 \<and> stock_movements s' = stock_movements s @ [m]
                 \<and> sm_product_id m = p \<and> sm_warehouse_id m = w
                 \<and> sm_movement_type m = t \<and> sm_quantity m = \<bar>d\<bar>)"
proof (cases "find_inventory p w s")
  case None
  then show ?thesis
    using f
    by (simp add: adjust_inventory_def Let_def quantity_of_def find_inventory_flush
        find_inventory_update find_inventory_add new_movement_def)
next
  case (Some r)
  then show ?thesis
    using f
    by (simp add: adjust_inventory_def Let_def quantity_of_def find_inventory_flush
        find_inventory_update new_movement_def)
qed


lemma signed_change:
  assumes "type_follows_sign data" and "ad_quantity_change data = Some d"
    and "ad_movement_type data = Some t"
  shows "movement_sign t * \<bar>d\<bar> = d"
  using assms by (cases "d = 0") (auto simp: type_follows_sign_def movement_sign_def)

lemma adjust_all_ledger:
  assumes "list_all (\<lambda>c. adjust_for p w (snd c)) calls"
  shows "quantity_of p w (adjust_all calls s)
           = quantity_of p w s + sum_list (accepted_changes calls s)
       \<and> map sm_quantity (movements_of p w (adjust_all calls s))
           = map sm_quantity (movements_of p w s) @ map abs (accepted_changes calls s)
       \<and> (list_all (\<lambda>c. type_follows_sign (snd c)) calls \<longrightarrow>
            ledger_balance p w (adjust_all calls s)
              = ledger_balance p w s + sum_list (accepted_changes calls s))"
  using assms
proof (induction calls arbitrary: s)
  case Nil
  then show ?case by simp
next
  case (Cons c calls)
  obtain now data where c: "c = (now, data)" by (cases c)
  from Cons.prems c obtain d t where
    f: "ad_product_id data = Some p" "ad_warehouse_id data = Some w"
       "ad_quantity_change data = Some d" "ad_movement_type data = Some t"
    by (auto simp: adjust_for_def)
  from Cons.prems have rest: "list_all (\<lambda>c. adjust_for p w (snd c)) calls"
    by simp
  show ?case
  proof (cases "quantity_of p w s + d < 0")
    case True
    with adjust_inventory_step [OF f, of s now]
    have "adjust_inventory now data s = (Inl (400, ''Insufficient stock for this operation''), s)"
      by simp
    with Cons.IH [OF rest, of s] show ?thesis
      by (simp add: c)
  next
    case False
    with adjust_inventory_step [OF f, of s now] obtain payload s' m where
      a: "adjust_inventory now data s = (Inr payload, s')"
      and q: "quantity_of p w s' = quantity_of p w s + d"
      and ms: "stock_movements s' = stock_movements s @ [m]"
      and m: "sm_product_id m = p" "sm_warehouse_id m = w" "sm_movement_type m = t"
             "sm_quantity m = \<bar>d\<bar>"
      by auto
    have mo: "movements_of p w s' = movements_of p w s @ [m]"
      using ms m by (simp add: movements_of_def)
    have lb: "ledger_balance p w s' = ledger_balance p w s + movement_sign t * \<bar>d\<bar>"
      using mo m by (simp add: ledger_balance_def signed_quantity_def)
    have lb': "ledger_balance p w s' = ledger_balance p w s + d" if "type_follows_sign data"
      using lb signed_change [OF that f(3,4)] by simp
    from Cons.IH [OF rest, of s'] a q mo lb' f m(4) show ?thesis
      by (simp add: c)
  qed
qed

lemma all_received_iff:
  "all_received po s \<longleftrightarrow>
     (\<forall>it\<in>set (purchase_order_items s).
         poi_purchase_order_id it = po \<longrightarrow> poi_quantity it \<le> poi_received_quantity it)"
  by (auto simp: all_received_def po_items_def list_all_iff)

section \<open>Results\<close>

text \<open>
  Claim C1, as the program has it. For every sequence of adjust calls on a pair with no
  stock level and no movements, the final quantity of the pair is the sum of the
  quantity changes of the calls that were accepted (a call that would make the quantity
  negative is refused and changes nothing), and the movements of the pair are one per
  accepted call, in their order, with the absolute value of the change as quantity. The
  movement type is the one of the request, whatever the sign of the change: the sum of
  the movements signed by their type is the final quantity when every call gives the
  type that follows the sign of its change.
\<close>

theorem adjust_sequence_reconciles:
  assumes "find_inventory p w db0 = None" and "movements_of p w db0 = []"
    and "list_all (\<lambda>c. adjust_for p w (snd c)) calls"
  shows "quantity_of p w (adjust_all calls db0) = sum_list (accepted_changes calls db0)
       \<and> map sm_quantity (movements_of p w (adjust_all calls db0))
           = map abs (accepted_changes calls db0)
       \<and> (list_all (\<lambda>c. type_follows_sign (snd c)) calls \<longrightarrow>
            ledger_balance p w (adjust_all calls db0)
              = quantity_of p w (adjust_all calls db0))"
  using adjust_all_ledger [OF assms(3), of db0] assms(1,2)
  by (simp add: quantity_of_def ledger_balance_def)

theorem adjust_sequence_reconciles_witness:
  "find_inventory 1 2 db_example = None \<and> movements_of 1 2 db_example = []
   \<and> list_all (\<lambda>c. adjust_for 1 2 (snd c))
        [(9, adjust_call 1 2 5 ''in''), (10, adjust_call 1 2 (- 7) ''out''),
         (11, adjust_call 1 2 (- 2) ''out'')]
   \<and> list_all (\<lambda>c. type_follows_sign (snd c))
        [(9, adjust_call 1 2 5 ''in''), (10, adjust_call 1 2 (- 7) ''out''),
         (11, adjust_call 1 2 (- 2) ''out'')]
   \<and> quantity_of 1 2
        (adjust_all [(9, adjust_call 1 2 5 ''in''), (10, adjust_call 1 2 (- 7) ''out''),
                     (11, adjust_call 1 2 (- 2) ''out'')] db_example) = 3
   \<and> map sm_quantity (movements_of 1 2
        (adjust_all [(9, adjust_call 1 2 5 ''in''), (10, adjust_call 1 2 (- 7) ''out''),
                     (11, adjust_call 1 2 (- 2) ''out'')] db_example)) = [5, 2]
   \<and> ledger_balance 1 2
        (adjust_all [(9, adjust_call 1 2 5 ''in''), (10, adjust_call 1 2 (- 7) ''out''),
                     (11, adjust_call 1 2 (- 2) ''out'')] db_example) = 3"
proof -
  let ?calls = "[(9, adjust_call 1 2 5 ''in''), (10, adjust_call 1 2 (- 7) ''out''),
                 (11, adjust_call 1 2 (- 2) ''out'')]"
  have fresh: "find_inventory 1 2 db_example = None" "movements_of 1 2 db_example = []"
    by (simp_all add: find_inventory_def movements_of_def db_example_def)
  have calls: "list_all (\<lambda>c. adjust_for 1 2 (snd c)) ?calls"
    by (simp add: adjust_for_def adjust_call_def)
  have types: "list_all (\<lambda>c. type_follows_sign (snd c)) ?calls"
    by (simp add: type_follows_sign_def adjust_call_def)
  have acc: "accepted_changes ?calls db_example = [5, - 2]"
    by (simp add: adjust_inventory_def adjust_call_def db_example_def find_inventory_def
        new_inventory_def next_id_def session_add_inventory_def inv_update_def
        session_add_movement_def new_movement_def Let_def flush_def stamp_inventory_def)
  from adjust_sequence_reconciles [OF fresh calls, unfolded acc] types
  have "quantity_of 1 2 (adjust_all ?calls db_example) = 3
        \<and> map sm_quantity (movements_of 1 2 (adjust_all ?calls db_example)) = [5, 2]
        \<and> ledger_balance 1 2 (adjust_all ?calls db_example) = 3"
    by simp
  with fresh calls types show ?thesis by blast
qed

text \<open>
  The claim as it is written fails: on a pair with no stock level and no movements, a
  call that adds five units with the movement type \<open>out\<close> is accepted; the quantity is
  5, and the movements signed by their type sum to \<open>-5\<close>.
\<close>

theorem adjust_type_against_sign_counterexample:
  "find_inventory 1 2 db_example = None \<and> movements_of 1 2 db_example = []
   \<and> accepted_changes [(9, adjust_call 1 2 5 ''out'')] db_example = [5]
   \<and> quantity_of 1 2 (adjust_all [(9, adjust_call 1 2 5 ''out'')] db_example) = 5
   \<and> ledger_balance 1 2 (adjust_all [(9, adjust_call 1 2 5 ''out'')] db_example) = - 5"
  by (simp add: adjust_inventory_def adjust_call_def db_example_def find_inventory_def
      new_inventory_def next_id_def session_add_inventory_def inv_update_def
      session_add_movement_def new_movement_def quantity_of_def Let_def flush_def
      stamp_inventory_def movements_of_def ledger_balance_def signed_quantity_def
      movement_sign_def)

text \<open>
  Claim C2. An adjust call whose quantity change would make the quantity of the pair
  negative is answered with status 400 and the message
  \<open>Insufficient stock for this operation\<close>, and the database after the request is
  the database before it: the inventory table (the row that the handler had created in
  its session for a pair without one is not kept) and the movement history are as they
  were.
\<close>

theorem adjust_insufficient_stock_unchanged:
  assumes "ad_product_id data = Some p" and "ad_warehouse_id data = Some w"
    and "ad_quantity_change data = Some d" and "ad_movement_type data = Some t"
    and "quantity_of p w db0 + d < 0"
  shows "adjust_inventory now data db0 =
           (Inl (400, ''Insufficient stock for this operation''), db0)"
  using assms
  by (simp add: adjust_inventory_def quantity_of_def new_inventory_def Let_def
      split: option.splits)

theorem adjust_insufficient_stock_unchanged_witness:
  "quantity_of 1 1 db_example + (- 6) < 0 \<and>
   adjust_inventory 9 (adjust_call 1 1 (- 6) ''out'') db_example =
     (Inl (400, ''Insufficient stock for this operation''), db_example)"
proof -
  have q: "quantity_of 1 1 db_example + (- 6) < 0"
    by (simp add: quantity_of_def find_inventory_def db_example_def)
  show ?thesis
    using q adjust_insufficient_stock_unchanged
      [of "adjust_call 1 1 (- 6) ''out''" 1 1 "- 6" "''out''" db_example 9]
    by (simp add: adjust_call_def)
qed

text \<open>
  Claim C3, as the program has it. A transfer of \<open>n\<close> units of a product from
  warehouse \<open>a\<close> to warehouse \<open>b\<close>: when \<open>a\<close> has no stock level for the product or
  one with less than \<open>n\<close> units, the answer is status 400
  (\<open>Insufficient stock in source warehouse\<close>) and the database is as it was. Otherwise
  the transfer succeeds and appends exactly two movements, an \<open>out\<close> of \<open>n\<close> at \<open>a\<close>
  and then an \<open>in\<close> of \<open>n\<close> at \<open>b\<close>; and when the two warehouses are different, the
  quantity at \<open>a\<close> is \<open>n\<close> less and the quantity at \<open>b\<close> is \<open>n\<close> more than before
  (\<open>b\<close> gets a stock level when it had none).
\<close>

theorem transfer_inventory_moves_stock:
  assumes f: "td_product_id data = Some p" "td_from_warehouse_id data = Some a"
    "td_to_warehouse_id data = Some b" "td_quantity data = Some n"
  shows "case find_inventory p a db0 of
           None \<Rightarrow> transfer_inventory now data db0 =
                     (Inl (400, ''Insufficient stock in source warehouse''), db0)
         | Some src \<Rightarrow>
            if inv_quantity src < n
            then transfer_inventory now data db0 =
                   (Inl (400, ''Insufficient stock in source warehouse''), db0)
            else (\<exists>payload db' m_out m_in.
                    transfer_inventory now data db0 = (Inr payload, db')
                  \<and> stock_movements db' = stock_movements db0 @ [m_out, m_in]
                  \<and> sm_product_id m_out = p \<and> sm_warehouse_id m_out = a
                  \<and> sm_movement_type m_out = ''out'' \<and> sm_quantity m_out = n
                  \<and> sm_product_id m_in = p \<and> sm_warehouse_id m_in = b
                  \<and> sm_movement_type m_in = ''in'' \<and> sm_quantity m_in = n
                  \<and> (a \<noteq> b \<and> inventory_keys_unique db0 \<longrightarrow>
                        quantity_of p a db' = inv_quantity src - n
                      \<and> quantity_of p b db' = quantity_of p b db0 + n))"
proof (cases "find_inventory p a db0")
  case None
  with f show ?thesis by (simp add: transfer_inventory_def)
next
  case (Some src)
  show ?thesis
  proof (cases "inv_quantity src < n")
    case True
    with f Some show ?thesis by (simp add: transfer_inventory_def)
  next
    case False
    have q: "a \<noteq> b \<and> inventory_keys_unique db0 \<longrightarrow>
               quantity_of p a (inv_update (case find_inventory p b db0 of
                                  Some r \<Rightarrow> inv_id r | None \<Rightarrow> inv_id (new_inventory now db0 p b 10 1000))
                     (\<lambda>r. r\<lparr>inv_quantity := inv_quantity r + n\<rparr>)
                     (inv_update (inv_id src) (\<lambda>r. r\<lparr>inv_quantity := inv_quantity r - n\<rparr>)
                        (case find_inventory p b db0 of Some r \<Rightarrow> db0
                         | None \<Rightarrow> session_add_inventory (new_inventory now db0 p b 10 1000) db0)))
                 = inv_quantity src - n
             \<and> quantity_of p b (inv_update (case find_inventory p b db0 of
                                  Some r \<Rightarrow> inv_id r | None \<Rightarrow> inv_id (new_inventory now db0 p b 10 1000))
                     (\<lambda>r. r\<lparr>inv_quantity := inv_quantity r + n\<rparr>)
                     (inv_update (inv_id src) (\<lambda>r. r\<lparr>inv_quantity := inv_quantity r - n\<rparr>)
                        (case find_inventory p b db0 of Some r \<Rightarrow> db0
                         | None \<Rightarrow> session_add_inventory (new_inventory now db0 p b 10 1000) db0)))
                 = quantity_of p b db0 + n"
      using transfer_quantities [OF Some, of b now n] by blast
    have sm: "stock_movements (case find_inventory p b db0 of Some r \<Rightarrow> db0
                | None \<Rightarrow> session_add_inventory (new_inventory now db0 p b 10 1000) db0)
              = stock_movements db0"
      by (simp split: option.splits)
    show ?thesis
      using f Some False q
      by (simp add: transfer_inventory_def Let_def new_movement_def sm)
  qed
qed

theorem transfer_inventory_moves_stock_witness:
  "find_inventory 1 1 db_example =
     Some \<lparr>inv_id = 1, inv_product_id = 1, inv_warehouse_id = 1, inv_quantity = 5,
            inv_reorder_level = 10, inv_max_stock_level = 1000, inv_last_updated = 3\<rparr>
   \<and> inventory_keys_unique db_example
   \<and> (\<exists>payload db' m_out m_in.
          transfer_inventory 9 (transfer_call 1 1 2 3) db_example = (Inr payload, db')
        \<and> stock_movements db' = stock_movements db_example @ [m_out, m_in]
        \<and> sm_movement_type m_out = ''out'' \<and> sm_quantity m_out = 3
        \<and> sm_movement_type m_in = ''in'' \<and> sm_quantity m_in = 3
        \<and> quantity_of 1 1 db' = 2 \<and> quantity_of 1 2 db' = 3)"
proof -
  let ?r = "\<lparr>inv_id = 1, inv_product_id = 1, inv_warehouse_id = 1, inv_quantity = 5,
             inv_reorder_level = 10, inv_max_stock_level = 1000, inv_last_updated = 3\<rparr>"
  have g: "find_inventory 1 1 db_example = Some ?r"
    by (simp add: find_inventory_def db_example_def)
  have u: "inventory_keys_unique db_example"
    by (simp add: inventory_keys_unique_def db_example_def)
  have q: "quantity_of 1 2 db_example = 0"
    by (simp add: quantity_of_def find_inventory_def db_example_def)
  from transfer_inventory_moves_stock
         [where data = "transfer_call 1 1 2 3" and p = 1 and a = 1 and b = 2 and n = 3
            and ?db0.0 = db_example and now = 9]
  have "\<exists>payload db' m_out m_in.
          transfer_inventory 9 (transfer_call 1 1 2 3) db_example = (Inr payload, db')
        \<and> stock_movements db' = stock_movements db_example @ [m_out, m_in]
        \<and> sm_product_id m_out = 1 \<and> sm_warehouse_id m_out = 1
        \<and> sm_movement_type m_out = ''out'' \<and> sm_quantity m_out = 3
        \<and> sm_product_id m_in = 1 \<and> sm_warehouse_id m_in = 2
        \<and> sm_movement_type m_in = ''in'' \<and> sm_quantity m_in = 3
        \<and> quantity_of 1 1 db' = 5 - 3
        \<and> quantity_of 1 2 db' = 0 + 3"
    by (simp add: transfer_call_def g u q)
  then have "\<exists>payload db' m_out m_in.
          transfer_inventory 9 (transfer_call 1 1 2 3) db_example = (Inr payload, db')
        \<and> stock_movements db' = stock_movements db_example @ [m_out, m_in]
        \<and> sm_movement_type m_out = ''out'' \<and> sm_quantity m_out = 3
        \<and> sm_movement_type m_in = ''in'' \<and> sm_quantity m_in = 3
        \<and> quantity_of 1 1 db' = 2 \<and> quantity_of 1 2 db' = 3"
    by fastforce
  with g u show ?thesis by blast
qed

text \<open>
  The claim as it is written fails for a transfer from a warehouse to itself: five
  units are on hand, three are transferred from warehouse 1 to warehouse 1, the
  transfer succeeds, and five units are on hand afterwards.
\<close>

theorem transfer_same_warehouse_counterexample:
  "quantity_of 1 1 db_example = 5
   \<and> \<not> isl (fst (transfer_inventory 9 (transfer_call 1 1 1 3) db_example))
   \<and> quantity_of 1 1 (snd (transfer_inventory 9 (transfer_call 1 1 1 3) db_example)) = 5"
  by (simp add: transfer_inventory_def transfer_call_def db_example_def find_inventory_def
      new_inventory_def next_id_def session_add_inventory_def inv_update_def
      session_add_movement_def new_movement_def quantity_of_def Let_def flush_def
      stamp_inventory_def)

text \<open>
  Claim C4 at an input where the program breaks it. Every quantity of the database is
  non-negative; a transfer of \<open>-3\<close> units from warehouse 1 to warehouse 2 is accepted,
  and warehouse 2 holds \<open>-3\<close> units afterwards.
\<close>

theorem transfer_negative_quantity:
  "map inv_quantity (inventory db_example) = [5]
   \<and> \<not> isl (fst (transfer_inventory 9 (transfer_call 1 1 2 (- 3)) db_example))
   \<and> map inv_quantity
         (inventory (snd (transfer_inventory 9 (transfer_call 1 1 2 (- 3)) db_example)))
       = [8, - 3]
   \<and> quantity_of 1 2 (snd (transfer_inventory 9 (transfer_call 1 1 2 (- 3)) db_example)) = - 3"
  by (simp add: transfer_inventory_def transfer_call_def db_example_def find_inventory_def
      new_inventory_def next_id_def session_add_inventory_def inv_update_def
      session_add_movement_def new_movement_def quantity_of_def Let_def flush_def
      stamp_inventory_def)

text \<open>
  Claim C5, as the program has it. A count of a negative quantity is answered with
  status 400 (\<open>Counted quantity cannot be negative\<close>) and changes nothing. A count of
  \<open>c \<ge> 0\<close> for a known barcode, followed by the same count at a later time: the second
  count leaves the movement history and every table as the first left them, but for the
  time stamp \<open>last_updated\<close> of the stock level. And when the pair has a stock level
  whose quantity is \<open>c\<close> already, the first count appends no movement either and changes
  no field of a stock level other than \<open>last_updated\<close>.
\<close>

theorem scan_count_reconciliation:
  assumes f: "cd_barcode data = Some b" "cd_warehouse_id data = Some w"
    "cd_counted_quantity data = Some c"
  shows "if c < 0
         then scan_count now data db0 =
                (Inl (400, ''Counted quantity cannot be negative''), db0)
         else (\<forall>pr. find (\<lambda>pr. prod_barcode pr = Some b) (products db0) = Some pr
                     \<and> inventory_keys_unique db0 \<longrightarrow>
                (\<exists>p1 db1 p2 db2.
                    scan_count now data db0 = (Inr p1, db1)
                  \<and> scan_count now' data db1 = (Inr p2, db2)
                  \<and> stock_movements db2 = stock_movements db1
                  \<and> map stock_content (inventory db2) = map stock_content (inventory db1)
                  \<and> purchase_orders db2 = purchase_orders db1
                  \<and> purchase_order_items db2 = purchase_order_items db1
                  \<and> products db2 = products db1 \<and> suppliers db2 = suppliers db1
                  \<and> map_option inv_last_updated (find_inventory (prod_id pr) w db1) = Some now
                  \<and> (map_option inv_quantity (find_inventory (prod_id pr) w db0) = Some c \<longrightarrow>
                        stock_movements db1 = stock_movements db0
                      \<and> map stock_content (inventory db1) = map stock_content (inventory db0))))"
proof (cases "c < 0")
  case True
  with f show ?thesis by (simp add: scan_count_def)
next
  case False
  then have c0: "0 \<le> c" by simp
  have "\<exists>p1 db1 p2 db2.
            scan_count now data db0 = (Inr p1, db1)
          \<and> scan_count now' data db1 = (Inr p2, db2)
          \<and> stock_movements db2 = stock_movements db1
          \<and> map stock_content (inventory db2) = map stock_content (inventory db1)
          \<and> purchase_orders db2 = purchase_orders db1
          \<and> purchase_order_items db2 = purchase_order_items db1
          \<and> products db2 = products db1 \<and> suppliers db2 = suppliers db1
          \<and> map_option inv_last_updated (find_inventory (prod_id pr) w db1) = Some now
          \<and> (map_option inv_quantity (find_inventory (prod_id pr) w db0) = Some c \<longrightarrow>
                stock_movements db1 = stock_movements db0
              \<and> map stock_content (inventory db1) = map stock_content (inventory db0))"
    if pr: "find (\<lambda>pr. prod_barcode pr = Some b) (products db0) = Some pr"
      and u: "inventory_keys_unique db0" for pr
  proof -
    from scan_count_after [OF f c0 pr u, of now] obtain p1 db1 r1 where
      a: "scan_count now data db0 = (Inr p1, db1)"
      and r1: "find_inventory (prod_id pr) w db1 = Some r1" "inv_quantity r1 = c"
      and t1: "inv_last_updated r1 = now"
      and u1: "inventory_keys_unique db1" and ps: "products db1 = products db0"
      by blast
    from pr ps have pr1: "find (\<lambda>pr. prod_barcode pr = Some b) (products db1) = Some pr"
      by simp
    from scan_count_same_quantity [OF f c0 pr1 r1 u1, of now'] obtain p2 db2 where
      b: "scan_count now' data db1 = (Inr p2, db2)"
      "stock_movements db2 = stock_movements db1"
      "map stock_content (inventory db2) = map stock_content (inventory db1)"
      "purchase_orders db2 = purchase_orders db1"
      "purchase_order_items db2 = purchase_order_items db1"
      "products db2 = products db1" "suppliers db2 = suppliers db1"
      by blast
    have "stock_movements db1 = stock_movements db0
          \<and> map stock_content (inventory db1) = map stock_content (inventory db0)"
      if q: "map_option inv_quantity (find_inventory (prod_id pr) w db0) = Some c"
    proof -
      from q obtain r where r: "find_inventory (prod_id pr) w db0 = Some r" "inv_quantity r = c"
        by auto
      from scan_count_same_quantity [OF f c0 pr r u, of now] a show ?thesis
        by auto
    qed
    moreover have "map_option inv_last_updated (find_inventory (prod_id pr) w db1) = Some now"
      using r1(1) t1 by simp
    ultimately show ?thesis using a b by blast
  qed
  with False show ?thesis by simp
qed

theorem scan_count_reconciliation_witness:
  "find (\<lambda>pr. prod_barcode pr = Some ''000001000001'') (products db_example)
     = Some \<lparr>prod_id = 1, prod_name = ''Widget'', prod_sku = ''W-1'',
              prod_barcode = Some ''000001000001''\<rparr>
   \<and> inventory_keys_unique db_example
   \<and> map_option inv_quantity (find_inventory 1 1 db_example) = Some 5
   \<and> (\<exists>p1 db1 p2 db2.
          scan_count 9 (count_call ''000001000001'' 1 5) db_example = (Inr p1, db1)
        \<and> scan_count 12 (count_call ''000001000001'' 1 5) db1 = (Inr p2, db2)
        \<and> stock_movements db2 = stock_movements db1
        \<and> map stock_content (inventory db2) = map stock_content (inventory db1)
        \<and> stock_movements db1 = stock_movements db_example
        \<and> map stock_content (inventory db1) = map stock_content (inventory db_example))"
proof -
  let ?pr = "\<lparr>prod_id = 1, prod_name = ''Widget'', prod_sku = ''W-1'',
              prod_barcode = Some ''000001000001''\<rparr>"
  have pr: "find (\<lambda>pr. prod_barcode pr = Some ''000001000001'') (products db_example) = Some ?pr"
    by (simp add: db_example_def)
  have u: "inventory_keys_unique db_example"
    by (simp add: inventory_keys_unique_def db_example_def)
  have q: "map_option inv_quantity (find_inventory 1 1 db_example) = Some 5"
    by (simp add: find_inventory_def db_example_def)
  have q': "map_option inv_quantity (find_inventory (prod_id ?pr) 1 db_example) = Some 5"
    using q by simp
  from scan_count_reconciliation
         [of "count_call ''000001000001'' 1 5" "''000001000001''" 1 5 9 db_example 12]
  have "\<forall>pr. find (\<lambda>pr. prod_barcode pr = Some ''000001000001'') (products db_example) = Some pr
              \<and> inventory_keys_unique db_example \<longrightarrow>
          (\<exists>p1 db1 p2 db2.
              scan_count 9 (count_call ''000001000001'' 1 5) db_example = (Inr p1, db1)
            \<and> scan_count 12 (count_call ''000001000001'' 1 5) db1 = (Inr p2, db2)
            \<and> stock_movements db2 = stock_movements db1
            \<and> map stock_content (inventory db2) = map stock_content (inventory db1)
            \<and> purchase_orders db2 = purchase_orders db1
            \<and> purchase_order_items db2 = purchase_order_items db1
            \<and> products db2 = products db1 \<and> suppliers db2 = suppliers db1
            \<and> map_option inv_last_updated (find_inventory (prod_id pr) 1 db1) = Some 9
            \<and> (map_option inv_quantity (find_inventory (prod_id pr) 1 db_example) = Some 5 \<longrightarrow>
                  stock_movements db1 = stock_movements db_example
                \<and> map stock_content (inventory db1) = map stock_content (inventory db_example)))"
    by (simp add: count_call_def)
  with pr u q' have "\<exists>p1 db1 p2 db2.
              scan_count 9 (count_call ''000001000001'' 1 5) db_example = (Inr p1, db1)
            \<and> scan_count 12 (count_call ''000001000001'' 1 5) db1 = (Inr p2, db2)
            \<and> stock_movements db2 = stock_movements db1
            \<and> map stock_content (inventory db2) = map stock_content (inventory db1)
            \<and> stock_movements db1 = stock_movements db_example
            \<and> map stock_content (inventory db1) = map stock_content (inventory db_example)"
    by blast
  with pr u q show ?thesis by blast
qed

text \<open>
  The claim as it is written fails. Five units are on hand in warehouse 1 and five are
  counted at time 9: the stock level is not as it was, its \<open>last_updated\<close> was 3 and is
  9. And warehouse 2 has no stock level for the product, so that nothing is on hand
  there; a count of 0 at time 9 creates one.
\<close>

theorem scan_count_same_quantity_counterexample:
  "map_option inv_quantity (find_inventory 1 1 db_example) = Some 5
   \<and> map inv_last_updated (inventory db_example) = [3]
   \<and> map inv_last_updated
         (inventory (snd (scan_count 9 (count_call ''000001000001'' 1 5) db_example))) = [9]
   \<and> find_inventory 1 2 db_example = None
   \<and> map stock_content (inventory db_example) = [(1, 1, 1, 5, 10, 1000)]
   \<and> map stock_content
         (inventory (snd (scan_count 9 (count_call ''000001000001'' 2 0) db_example)))
       = [(1, 1, 1, 5, 10, 1000), (2, 1, 2, 0, 10, 1000)]"
  by (simp add: scan_count_def count_call_def db_example_def find_inventory_def
      new_inventory_def next_id_def session_add_inventory_def inv_update_def flush_def
      stamp_inventory_def stock_content_def Let_def)

text \<open>
  Claim C6. Over every sequence of receive calls on a purchase order, every item stays
  the item it was and its received quantity does not decrease. A receive call on an
  order that is neither \<open>approved\<close> nor \<open>ordered\<close> is answered with status 409, one
  without a warehouse or without lines with status 400, and both leave the database as
  it was. Every other call succeeds. When, in the table of the items after the call,
  every item of the order has a received quantity that is at least its ordered
  quantity, the status of the order is \<open>received\<close> and its actual delivery is the time
  of the call; when some item of the order has received less than was ordered, the
  status is not \<open>received\<close>: status and actual delivery are as before the call.
\<close>

theorem receive_purchase_order_progress:
  "list_all2 item_progress (purchase_order_items db0)
     (purchase_order_items (receive_all calls po db0))
   \<and> (\<forall>ord. get_purchase_order po db0 = Some ord \<longrightarrow>
        (if po_status ord \<noteq> ''approved'' \<and> po_status ord \<noteq> ''ordered''
         then receive_purchase_order now po data db0 =
                (Inl (409, ''Can only receive from approved or ordered purchase orders''), db0)
         else if rd_warehouse_id data = None \<or> rd_warehouse_id data = Some 0
                 \<or> rd_received_items data = None \<or> rd_received_items data = Some []
         then receive_purchase_order now po data db0 =
                (Inl (400, ''Warehouse ID and received items are required''), db0)
         else (\<exists>payload db' ord'.
                 receive_purchase_order now po data db0 = (Inr payload, db')
               \<and> get_purchase_order po db' = Some ord'
               \<and> list_all2 item_progress (purchase_order_items db0) (purchase_order_items db')
               \<and> (if \<forall>it\<in>set (purchase_order_items db').
                         poi_purchase_order_id it = po \<longrightarrow>
                         poi_quantity it \<le> poi_received_quantity it
                   then po_status ord' = ''received'' \<and> po_actual_delivery ord' = Some now
                   else po_status ord' \<noteq> ''received'' \<and> po_status ord' = po_status ord
                      \<and> po_actual_delivery ord' = po_actual_delivery ord))))"
proof (intro conjI allI impI)
  show "list_all2 item_progress (purchase_order_items db0)
          (purchase_order_items (receive_all calls po db0))"
    by (rule receive_all_progress)
next
  fix ord
  assume g: "get_purchase_order po db0 = Some ord"
  let ?accepted = "\<exists>payload db' ord'.
                 receive_purchase_order now po data db0 = (Inr payload, db')
               \<and> get_purchase_order po db' = Some ord'
               \<and> list_all2 item_progress (purchase_order_items db0) (purchase_order_items db')
               \<and> (if \<forall>it\<in>set (purchase_order_items db').
                         poi_purchase_order_id it = po \<longrightarrow>
                         poi_quantity it \<le> poi_received_quantity it
                   then po_status ord' = ''received'' \<and> po_actual_delivery ord' = Some now
                   else po_status ord' \<noteq> ''received'' \<and> po_status ord' = po_status ord
                      \<and> po_actual_delivery ord' = po_actual_delivery ord)"
  show "if po_status ord \<noteq> ''approved'' \<and> po_status ord \<noteq> ''ordered''
         then receive_purchase_order now po data db0 =
                (Inl (409, ''Can only receive from approved or ordered purchase orders''), db0)
         else if rd_warehouse_id data = None \<or> rd_warehouse_id data = Some 0
                 \<or> rd_received_items data = None \<or> rd_received_items data = Some []
         then receive_purchase_order now po data db0 =
                (Inl (400, ''Warehouse ID and received items are required''), db0)
         else ?accepted"
  proof (cases "po_status ord \<noteq> ''approved'' \<and> po_status ord \<noteq> ''ordered''")
    case True
    with g show ?thesis by (simp add: receive_purchase_order_def)
  next
    case st: False
    show ?thesis
    proof (cases "rd_warehouse_id data = None \<or> rd_warehouse_id data = Some 0
                 \<or> rd_received_items data = None \<or> rd_received_items data = Some []")
      case True
      with g st show ?thesis by (simp add: receive_purchase_order_def)
    next
      case False
      from st have st': "po_status ord = ''approved'' \<or> po_status ord = ''ordered''"
        by simp
      from False have w: "rd_warehouse_id data \<noteq> None" "rd_warehouse_id data \<noteq> Some 0"
        "rd_received_items data \<noteq> None" "rd_received_items data \<noteq> Some []"
        by simp_all
      from receive_purchase_order_status [OF g st' w, of now] obtain payload db' ord' where
        r: "receive_purchase_order now po data db0 = (Inr payload, db')"
        and o: "get_purchase_order po db' = Some ord'"
        and s: "po_status ord' = ''received'' \<longleftrightarrow> all_received po db'"
        and d: "all_received po db' \<longrightarrow> po_actual_delivery ord' = Some now"
        and n: "\<not> all_received po db' \<longrightarrow>
                  po_status ord' = po_status ord
                \<and> po_actual_delivery ord' = po_actual_delivery ord"
        by blast
      have p: "list_all2 item_progress (purchase_order_items db0) (purchase_order_items db')"
        using receive_purchase_order_progress_step [of db0 now po data] r by simp
      have ?accepted
        using r o p s d n unfolding all_received_iff by auto
      then show ?thesis
        by (subst if_not_P [OF st], subst if_not_P [OF False])
    qed
  qed
qed

theorem receive_purchase_order_progress_witness:
  "get_purchase_order 1 db_po_example = Some po_example
   \<and> po_status po_example = ''approved'' \<and> po_actual_delivery po_example = None
   \<and> list_all2 item_progress (purchase_order_items db_po_example)
         (purchase_order_items
            (receive_all [(11, receive_call 1 [(1, 4)]), (12, receive_call 1 [(1, 6)])] 1
               db_po_example))
   \<and> (\<exists>payload db' ord'.
          receive_purchase_order 11 1 (receive_call 1 [(1, 4)]) db_po_example = (Inr payload, db')
        \<and> get_purchase_order 1 db' = Some ord'
        \<and> map poi_quantity (purchase_order_items db') = [10]
        \<and> map poi_received_quantity (purchase_order_items db') = [4]
        \<and> po_status ord' = ''approved'' \<and> po_actual_delivery ord' = None)
   \<and> (\<exists>payload db' ord'.
          receive_purchase_order 11 1 (receive_call 1 [(1, 10)]) db_po_example = (Inr payload, db')
        \<and> get_purchase_order 1 db' = Some ord'
        \<and> map poi_quantity (purchase_order_items db') = [10]
        \<and> map poi_received_quantity (purchase_order_items db') = [10]
        \<and> po_status ord' = ''received'' \<and> po_actual_delivery ord' = Some 11)"
proof -
  have g: "get_purchase_order 1 db_po_example = Some po_example"
    by (simp add: get_purchase_order_def db_po_example_def po_example_def)
  have st: "po_status po_example = ''approved''" "po_actual_delivery po_example = None"
    by (simp_all add: po_example_def)
  have items: "purchase_order_items
                 (snd (receive_purchase_order 11 1 (receive_call 1 [(1, q)]) db_po_example))
               = [\<lparr>poi_id = 1, poi_purchase_order_id = 1, poi_product_id = 1,
                    poi_quantity = 10, poi_unit_price = 5, poi_received_quantity = q\<rparr>]"
    if "0 < q" for q
    using that
    by (simp add: receive_purchase_order_def receive_call_def db_po_example_def db_example_def
        po_example_def get_purchase_order_def receive_line_def get_po_item_def find_inventory_def
        new_inventory_def inv_update_def po_update_def session_add_movement_def new_movement_def
        all_received_def po_items_def flush_def Let_def poi_update_def)
  have partial: "\<exists>payload db' ord'.
          receive_purchase_order 11 1 (receive_call 1 [(1, 4)]) db_po_example = (Inr payload, db')
        \<and> get_purchase_order 1 db' = Some ord'
        \<and> map poi_quantity (purchase_order_items db') = [10]
        \<and> map poi_received_quantity (purchase_order_items db') = [4]
        \<and> po_status ord' = ''approved'' \<and> po_actual_delivery ord' = None"
  proof -
    from receive_purchase_order_progress
           [where po = 1 and ?db0.0 = db_po_example and now = 11
              and data = "receive_call 1 [(1, 4)]" and calls = "[]"] g
    obtain payload db' ord' where
      r: "receive_purchase_order 11 1 (receive_call 1 [(1, 4)]) db_po_example = (Inr payload, db')"
      and o: "get_purchase_order 1 db' = Some ord'"
      and c: "if \<forall>it\<in>set (purchase_order_items db').
                     poi_purchase_order_id it = 1 \<longrightarrow> poi_quantity it \<le> poi_received_quantity it
              then po_status ord' = ''received'' \<and> po_actual_delivery ord' = Some 11
              else po_status ord' \<noteq> ''received'' \<and> po_status ord' = po_status po_example
                 \<and> po_actual_delivery ord' = po_actual_delivery po_example"
      by (auto simp add: st receive_call_def)
    from items [of 4] r have i: "purchase_order_items db'
               = [\<lparr>poi_id = 1, poi_purchase_order_id = 1, poi_product_id = 1,
                    poi_quantity = 10, poi_unit_price = 5, poi_received_quantity = 4\<rparr>]"
      by simp
    from c i st have "po_status ord' = ''approved'' \<and> po_actual_delivery ord' = None"
      by simp
    with r o i show ?thesis by auto
  qed
  have full: "\<exists>payload db' ord'.
          receive_purchase_order 11 1 (receive_call 1 [(1, 10)]) db_po_example = (Inr payload, db')
        \<and> get_purchase_order 1 db' = Some ord'
        \<and> map poi_quantity (purchase_order_items db') = [10]
        \<and> map poi_received_quantity (purchase_order_items db') = [10]
        \<and> po_status ord' = ''received'' \<and> po_actual_delivery ord' = Some 11"
  proof -
    from receive_purchase_order_progress
           [where po = 1 and ?db0.0 = db_po_example and now = 11
              and data = "receive_call 1 [(1, 10)]" and calls = "[]"] g
    obtain payload db' ord' where
      r: "receive_purchase_order 11 1 (receive_call 1 [(1, 10)]) db_po_example = (Inr payload, db')"
      and o: "get_purchase_order 1 db' = Some ord'"
      and c: "if \<forall>it\<in>set (purchase_order_items db').
                     poi_purchase_order_id it = 1 \<longrightarrow> poi_quantity it \<le> poi_received_quantity it
              then po_status ord' = ''received'' \<and> po_actual_delivery ord' = Some 11
              else po_status ord' \<noteq> ''received'' \<and> po_status ord' = po_status po_example
                 \<and> po_actual_delivery ord' = po_actual_delivery po_example"
      by (auto simp add: st receive_call_def)
    from items [of 10] r have i: "purchase_order_items db'
               = [\<lparr>poi_id = 1, poi_purchase_order_id = 1, poi_product_id = 1,
                    poi_quantity = 10, poi_unit_price = 5, poi_received_quantity = 10\<rparr>]"
      by simp
    from c i have "po_status ord' = ''received'' \<and> po_actual_delivery ord' = Some 11"
      by simp
    with r o i show ?thesis by auto
  qed
  have seq: "list_all2 item_progress (purchase_order_items db_po_example)
          (purchase_order_items
             (receive_all [(11, receive_call 1 [(1, 4)]), (12, receive_call 1 [(1, 6)])] 1
                db_po_example))"
    using receive_purchase_order_progress
            [where po = 1 and ?db0.0 = db_po_example and now = 11
               and data = "receive_call 1 [(1, 10)]"
               and calls = "[(11, receive_call 1 [(1, 4)]), (12, receive_call 1 [(1, 6)])]"]
    by (rule conjunct1)
  from g st seq partial full show ?thesis by blast
qed

text \<open>
  Claim C7. For a purchase order whose status is \<open>received\<close> or \<open>cancelled\<close>, cancel is
  answered with status 409 (the program's response for an operation that the state of
  the order does not allow) and the database is as it was. For an order in any other
  status the call succeeds, the status of the order is \<open>cancelled\<close> afterwards, and the
  inventory table, the movement history and the items of the orders (with what was
  received so far) are as they were.
\<close>

theorem cancel_purchase_order_states:
  assumes "get_purchase_order po db0 = Some ord"
  shows "if po_status ord = ''received'' \<or> po_status ord = ''cancelled''
         then cancel_purchase_order now po db0 =
                (Inl (409, ''Cannot cancel purchase order in current status''), db0)
         else (\<exists>payload db'. cancel_purchase_order now po db0 = (Inr payload, db')
                 \<and> map_option po_status (get_purchase_order po db') = Some ''cancelled''
                 \<and> inventory db' = inventory db0
                 \<and> stock_movements db' = stock_movements db0
                 \<and> purchase_order_items db' = purchase_order_items db0)"
  using assms
  by (simp add: cancel_purchase_order_def Let_def get_purchase_order_flush
      get_purchase_order_update)

theorem cancel_purchase_order_states_witness:
  "get_purchase_order 1 db_po_example = Some po_example
   \<and> (\<exists>payload db'. cancel_purchase_order 11 1 db_po_example = (Inr payload, db')
         \<and> map_option po_status (get_purchase_order 1 db') = Some ''cancelled''
         \<and> inventory db' = inventory db_po_example
         \<and> stock_movements db' = stock_movements db_po_example
         \<and> purchase_order_items db' = purchase_order_items db_po_example)"
proof -
  have g: "get_purchase_order 1 db_po_example = Some po_example"
    by (simp add: get_purchase_order_def db_po_example_def po_example_def)
  have st: "po_status po_example = ''approved''"
    by (simp add: po_example_def)
  show ?thesis
    using g cancel_purchase_order_states [OF g, of 11] by (simp add: st)
qed

text \<open>
  Claim C8 at inputs where the program breaks it. An order of \<open>-5\<close> units of a known
  product at the unit price 3, from a known supplier: the claim has the creation refused
  with status 400, as the program refuses the same order of 0 units. The program
  creates the order, with the status \<open>pending\<close>, the total amount \<open>-15\<close> and an item of
  \<open>-5\<close> units. It does the same for 5 units at the unit price \<open>-3\<close>.
\<close>

theorem create_purchase_order_negative_quantity:
  "create_purchase_order 9 ''PO-20240102-5E6F7A8B'' (create_call 1 [item_call 1 0 3]) db_example
     = (Inl (400, ''Product ID, quantity, and unit price are required for all items''),
        db_example)
   \<and> \<not> isl (fst (create_purchase_order 9 ''PO-20240102-5E6F7A8B''
                 (create_call 1 [item_call 1 (- 5) 3]) db_example))
   \<and> map po_status (purchase_orders (snd (create_purchase_order 9 ''PO-20240102-5E6F7A8B''
                 (create_call 1 [item_call 1 (- 5) 3]) db_example))) = [''pending'']
   \<and> map po_total_amount (purchase_orders (snd (create_purchase_order 9 ''PO-20240102-5E6F7A8B''
                 (create_call 1 [item_call 1 (- 5) 3]) db_example))) = [- 15]
   \<and> map poi_quantity (purchase_order_items (snd (create_purchase_order 9 ''PO-20240102-5E6F7A8B''
                 (create_call 1 [item_call 1 (- 5) 3]) db_example))) = [- 5]
   \<and> \<not> isl (fst (create_purchase_order 9 ''PO-20240102-5E6F7A8B''
                 (create_call 1 [item_call 1 5 (- 3)]) db_example))
   \<and> map po_total_amount (purchase_orders (snd (create_purchase_order 9 ''PO-20240102-5E6F7A8B''
                 (create_call 1 [item_call 1 5 (- 3)]) db_example))) = [- 15]
   \<and> map poi_unit_price (purchase_order_items (snd (create_purchase_order 9 ''PO-20240102-5E6F7A8B''
                 (create_call 1 [item_call 1 5 (- 3)]) db_example))) = [- 3]"
proof -
  have "\<lfloor>3001 / 2 :: rat\<rfloor> = 1500" and "\<lfloor>601 / 2 :: rat\<rfloor> = 300"
    by linarith+
  then have d: "decimal_10_2 (- 15) = - 15" "decimal_10_2 3 = 3" "decimal_10_2 (- 3) = - 3"
    by (simp_all add: decimal_10_2_def)
  show ?thesis
    by (simp add: create_purchase_order_def create_call_def item_call_def db_example_def
        next_id_def po_update_def get_purchase_order_def po_items_def flush_def
        stamp_purchase_order_def d Let_def)
qed

text \<open>
  Claim C9 at an input where the program breaks it. The product has ten units in each of
  two warehouses and one \<open>out\<close> movement of five units in the window: the \<open>out\<close>
  quantity is 5 and the average stock 10, so the rate of the claim is 1/2. The report
  pairs the movement with both inventory rows, has \<open>total_movement\<close> 10 and the rate 1.
\<close>

theorem turnover_counts_movement_per_warehouse:
  "get_inventory_turnover 100 30 db_two_warehouses =
     [\<lparr>tr_product_id = 1, tr_product_name = ''Widget'', tr_sku = ''W-1'',
       tr_total_movement = 10, tr_avg_inventory = 10, tr_turnover_rate = 1\<rparr>]
   \<and> total_out_quantity (100 - 30 * 86400) 1 db_two_warehouses = 5
   \<and> average_inventory 1 db_two_warehouses = 10"
  by (simp add: get_inventory_turnover_def turnover_data_def turnover_join_def
      db_two_warehouses_def py_round2_def total_out_quantity_def average_inventory_def Let_def)

text \<open>
  Claim C10. The direct update of an inventory item (\<open>PUT\<close> on its id) with a
  \<open>quantity\<close> in the body succeeds for every value of it, the row has that quantity
  afterwards, and the movement history is as it was; so when the database reconciled
  before the call and the quantity is a new one, it does not reconcile after it.
\<close>

theorem update_inventory_item_no_movement:
  assumes "get_inventory_row i db0 = Some r" and "ud_quantity data = Some q"
  shows "\<exists>payload db'. update_inventory_item now i data db0 = (Inr payload, db')
           \<and> map_option inv_quantity (get_inventory_row i db') = Some q
           \<and> stock_movements db' = stock_movements db0
           \<and> (reconciles db0 \<and> q \<noteq> inv_quantity r \<longrightarrow> \<not> reconciles db')"
proof -
  from update_inventory_item_row [OF assms, of now] obtain payload db' r' where
    u: "update_inventory_item now i data db0 = (Inr payload, db')"
    and g: "get_inventory_row i db' = Some r'"
    and q: "inv_quantity r' = q"
    and p: "inv_product_id r' = inv_product_id r" "inv_warehouse_id r' = inv_warehouse_id r"
    and m: "stock_movements db' = stock_movements db0"
    by blast
  have "\<not> reconciles db'" if rec: "reconciles db0" and ne: "q \<noteq> inv_quantity r"
  proof
    assume rec': "reconciles db'"
    have "ledger_balance (inv_product_id r) (inv_warehouse_id r) db0 = inv_quantity r"
      using rec get_inventory_row_mem [OF assms(1)] by (auto simp: reconciles_def list_all_iff)
    moreover have "ledger_balance (inv_product_id r') (inv_warehouse_id r') db' = inv_quantity r'"
      using rec' get_inventory_row_mem [OF g] by (auto simp: reconciles_def list_all_iff)
    ultimately show False
      using ne q p ledger_balance_cong [OF m] by simp
  qed
  with u g q m show ?thesis by auto
qed

theorem update_inventory_item_no_movement_witness:
  "reconciles db_example
   \<and> (\<exists>payload db'.
         update_inventory_item 9 1
           \<lparr>ud_quantity = Some 42, ud_reorder_level = None, ud_max_stock_level = None,
            ud_other_keys = False\<rparr> db_example = (Inr payload, db')
         \<and> map_option inv_quantity (get_inventory_row 1 db') = Some 42
         \<and> stock_movements db' = stock_movements db_example
         \<and> \<not> reconciles db')"
proof -
  let ?r = "\<lparr>inv_id = 1, inv_product_id = 1, inv_warehouse_id = 1, inv_quantity = 5,
             inv_reorder_level = 10, inv_max_stock_level = 1000, inv_last_updated = 3\<rparr>"
  let ?data = "\<lparr>ud_quantity = Some 42, ud_reorder_level = None, ud_max_stock_level = None,
                ud_other_keys = False\<rparr>"
  have g: "get_inventory_row 1 db_example = Some ?r"
    by (simp add: get_inventory_row_def db_example_def)
  have d: "ud_quantity ?data = Some 42"
    by simp
  have rec: "reconciles db_example"
    by (simp add: reconciles_def ledger_balance_def movements_of_def signed_quantity_def
        movement_sign_def db_example_def)
  show ?thesis
    using rec update_inventory_item_no_movement [OF g d, of 9] by simp
qed

end
